theory Spec2Isabelle
  imports Complex_Main
begin

section \<open>Python values shared by the modules\<close>

text \<open>
  Strings are \<open>string\<close> (lists of 8-bit characters), so the text operations below are
  the ASCII fragment of Python's \<open>str\<close> methods. Python floats are modelled by \<open>real\<close>,
  without rounding; the timestamps handed to the frame capture, which come from outside,
  are modelled by \<open>pyfloat\<close>, which adds the infinities and NaN.
\<close>

subsection \<open>Exceptions\<close>

text \<open>
  Every exception class raised or caught by the modules. All of them derive from
  \<open>Exception\<close>, so a handler \<open>except Exception\<close> catches every value of this type;
  \<open>except json.JSONDecodeError\<close> catches the \<open>JSONDecodeError\<close> constructor only.
  \<open>JSONDecodeError msg doc pos\<close> keeps the constructor arguments of the library class.
\<close>

datatype exn =
    ImportError string
  | ValueError string
  | FileNotFoundError string
  | RuntimeError string
  | JSONDecodeError string string nat
  | AttributeError string
  | TypeError string
  | IndexError string
  | OSError string
  | KeyError string
  | OverflowError string
  | APIError string

type_synonym 'a result = "exn + 'a"

subsection \<open>Decimal rendering of integers\<close>

definition digit_char :: "nat \<Rightarrow> char" where
  "digit_char d = ''0123456789'' ! d"

fun str_nat :: "nat \<Rightarrow> string" where
  "str_nat n = (if n < 10 then [digit_char n] else str_nat (n div 10) @ [digit_char (n mod 10)])"

declare str_nat.simps [simp del]

definition str_int :: "int \<Rightarrow> string" where
  "str_int i = (if i < 0 then CHR ''-'' # str_nat (nat (- i)) else str_nat (nat i))"

text \<open>The format specification \<open>02d\<close>: sign-aware zero padding to a total width of two.\<close>

definition zfill :: "nat \<Rightarrow> string \<Rightarrow> string" where
  "zfill w s = replicate (w - length s) (CHR ''0'') @ s"

definition fmt_02d :: "int \<Rightarrow> string" where
  "fmt_02d i = (if i < 0 then CHR ''-'' # zfill 1 (str_nat (nat (- i))) else zfill 2 (str_nat (nat i)))"

subsection \<open>Float arithmetic used by the formatting helpers\<close>

text \<open>\<open>x // y\<close> and \<open>x % y\<close> for a positive divisor, and \<open>int(x)\<close> (truncation towards zero).\<close>

definition py_floordiv :: "real \<Rightarrow> real \<Rightarrow> real" where
  "py_floordiv x y = of_int \<lfloor>x / y\<rfloor>"

definition py_mod :: "real \<Rightarrow> real \<Rightarrow> real" where
  "py_mod x y = x - y * of_int \<lfloor>x / y\<rfloor>"

definition py_int :: "real \<Rightarrow> int" where
  "py_int x = (if x < 0 then \<lceil>x\<rceil> else \<lfloor>x\<rfloor>)"

section \<open>transcriber.py: the formatting helpers\<close>

definition format_timestamp :: "real \<Rightarrow> string" where
  "format_timestamp seconds =
     (let m = py_int (py_floordiv seconds 60);
          s = py_int (py_mod seconds 60)
      in fmt_02d m @ '':'' @ fmt_02d s)"

definition format_timestamp_long :: "real \<Rightarrow> string" where
  "format_timestamp_long seconds =
     (let h = py_int (py_floordiv seconds 3600);
          m = py_int (py_floordiv (py_mod seconds 3600) 60);
          s = py_int (py_mod seconds 60)
      in if h > 0 then fmt_02d h @ '':'' @ fmt_02d m @ '':'' @ fmt_02d s
         else fmt_02d m @ '':'' @ fmt_02d s)"

section \<open>Text operations\<close>

definition char_lower :: "char \<Rightarrow> char" where
  "char_lower c =
     (case map_of (zip ''ABCDEFGHIJKLMNOPQRSTUVWXYZ'' ''abcdefghijklmnopqrstuvwxyz'') c of
        Some d \<Rightarrow> d
      | None \<Rightarrow> c)"

definition str_lower :: "string \<Rightarrow> string" where
  "str_lower s = map char_lower s"

text \<open>The characters of the ASCII range for which \<open>str.isspace\<close> holds.\<close>

definition is_space :: "char \<Rightarrow> bool" where
  "is_space c = (c \<in> set [CHR 0x09, CHR 0x0A, CHR 0x0B, CHR 0x0C, CHR 0x0D,
                            CHR 0x1C, CHR 0x1D, CHR 0x1E, CHR 0x1F, CHR 0x20])"

definition str_strip :: "string \<Rightarrow> string" where
  "str_strip s = rev (dropWhile is_space (rev (dropWhile is_space s)))"

definition startswith :: "string \<Rightarrow> string \<Rightarrow> bool" where
  "startswith s p = (take (length p) s = p)"

text \<open>\<open>sub in s\<close>: the scan for an occurrence of \<open>sub\<close> starting at some position of \<open>s\<close>.\<close>

fun str_in :: "string \<Rightarrow> string \<Rightarrow> bool" where
  "str_in sub [] = (sub = [])"
| "str_in sub (c # cs) = (startswith (c # cs) sub \<or> str_in sub cs)"

text \<open>
  \<open>s.split(sep)\<close> for a separator string: the pieces between the non-overlapping
  occurrences of \<open>sep\<close>, found from the left. (Python raises for an empty separator; the
  modules only split on non-empty literals, and the model then returns the text unsplit.)
\<close>

function py_split_from :: "string \<Rightarrow> string \<Rightarrow> string \<Rightarrow> string list" where
  "py_split_from sep cur [] = [rev cur]"
| "py_split_from sep cur (c # cs) =
     (if sep \<noteq> [] \<and> startswith (c # cs) sep
      then rev cur # py_split_from sep [] (drop (length sep) (c # cs))
      else py_split_from sep (c # cur) cs)"
  by pat_completeness auto
termination
  by (relation "measure (\<lambda>(sep, cur, s). length s)") (auto simp: neq_Nil_conv)

definition py_split :: "string \<Rightarrow> string \<Rightarrow> string list" where
  "py_split sep s = py_split_from sep [] s"

text \<open>\<open>s.rfind(c)\<close> for a single character: the last index of \<open>c\<close>, or \<open>-1\<close>.\<close>

fun str_rfind :: "char \<Rightarrow> string \<Rightarrow> int" where
  "str_rfind c [] = - 1"
| "str_rfind c (x # xs) =
     (let r = str_rfind c xs in if r \<noteq> - 1 then r + 1 else if x = c then 0 else - 1)"

subsection \<open>Dynamically typed values\<close>

text \<open>
  The values a JSON document decodes to, which are also the values the untyped
  parameters of the modules range over. A \<open>dict\<close> is an association list in insertion
  order; a key is looked up with \<open>map_of\<close>.
\<close>

datatype pyval =
    PyNone
  | PyBool bool
  | PyInt int
  | PyFloat real
  | PyStr string
  | PyList "pyval list"
  | PyDict "(string \<times> pyval) list"

fun truthy :: "pyval \<Rightarrow> bool" where
  "truthy PyNone = False"
| "truthy (PyBool b) = b"
| "truthy (PyInt i) = (i \<noteq> 0)"
| "truthy (PyFloat x) = (x \<noteq> 0)"
| "truthy (PyStr s) = (s \<noteq> [])"
| "truthy (PyList xs) = (xs \<noteq> [])"
| "truthy (PyDict kvs) = (kvs \<noteq> [])"

fun isinstance_str :: "pyval \<Rightarrow> bool" where
  "isinstance_str (PyStr s) = True"
| "isinstance_str _ = False"

section \<open>app.py: recognising a YouTube URL\<close>

text \<open>The source function is \<open>_is_youtube_url\<close>.\<close>

definition is_youtube_url :: "pyval \<Rightarrow> bool" where
  "is_youtube_url url =
     (if \<not> truthy url \<or> \<not> isinstance_str url then False
      else (case url of
              PyStr s \<Rightarrow>
                (let url_lower = str_lower (str_strip s)
                 in str_in ''youtube.com'' url_lower \<or> str_in ''youtu.be'' url_lower)
            | _ \<Rightarrow> False))"

section \<open>video_processor.py: the supported formats\<close>

text \<open>
  \<open>Path(filename).suffix\<close> as \<open>pathlib\<close> computes it for POSIX paths: the path is cut at
  \<open>/\<close>, empty and \<open>.\<close> components are dropped, the name is the last remaining component,
  and the suffix starts at the last dot of the name unless that dot is the first or the
  last character.
\<close>

definition path_name :: "string \<Rightarrow> string" where
  "path_name p =
     (case filter (\<lambda>x. x \<noteq> [] \<and> x \<noteq> ''.'') (py_split ''/'' p) of
        [] \<Rightarrow> []
      | x # xs \<Rightarrow> last (x # xs))"

definition path_suffix :: "string \<Rightarrow> string" where
  "path_suffix p =
     (let name = path_name p; i = str_rfind (CHR ''.'') name
      in if 0 < i \<and> i < int (length name) - 1 then drop (nat i) name else [])"

definition SUPPORTED_VIDEO_FORMATS :: "string set" where
  "SUPPORTED_VIDEO_FORMATS =
     {''.mp4'', ''.avi'', ''.mkv'', ''.mov'', ''.webm'',
      ''.wmv'', ''.flv'', ''.m4v'', ''.mpg'', ''.mpeg'',
      ''.3gp'', ''.3g2'', ''.ogv'', ''.mts'', ''.m2ts'',
      ''.vob'', ''.ts'', ''.divx'', ''.f4v'', ''.asf''}"

definition is_supported_video :: "string \<Rightarrow> bool" where
  "is_supported_video filename = (str_lower (path_suffix filename) \<in> SUPPORTED_VIDEO_FORMATS)"

section \<open>summarizer.py\<close>

subsection \<open>More Python operations\<close>

text \<open>\<open>sep.join(parts)\<close>.\<close>

fun str_join :: "string \<Rightarrow> string list \<Rightarrow> string" where
  "str_join sep [] = []"
| "str_join sep [x] = x"
| "str_join sep (x # y # ys) = x @ sep @ str_join sep (y # ys)"

text \<open>
  The format specification \<open>.1f\<close>: the value rounded to one decimal, ties to the even
  digit, with the sign of the value.
\<close>

definition round_half_even :: "real \<Rightarrow> int" where
  "round_half_even x =
     (let f = \<lfloor>x\<rfloor>; d = x - of_int f
      in if d < 1 / 2 then f else if 1 / 2 < d then f + 1 else if even f then f else f + 1)"

definition fmt_1f :: "real \<Rightarrow> string" where
  "fmt_1f x =
     (let n = nat (round_half_even (\<bar>x\<bar> * 10))
      in (if x < 0 then ''-'' else []) @ str_nat (n div 10) @ ''.'' @ str_nat (n mod 10))"

text \<open>
  \<open>str(e)\<close>. A \<open>JSONDecodeError\<close> renders its message with the line and column of the
  position, as the library's constructor computes them.
\<close>

definition str_count :: "char \<Rightarrow> string \<Rightarrow> nat" where
  "str_count c s = length (filter (\<lambda>x. x = c) s)"

fun py_str :: "exn \<Rightarrow> string" where
  "py_str (ImportError m) = m"
| "py_str (ValueError m) = m"
| "py_str (FileNotFoundError m) = m"
| "py_str (RuntimeError m) = m"
| "py_str (JSONDecodeError msg doc pos) =
     (let lineno = str_count (CHR 0x0A) (take pos doc) + 1;
          colno = int pos - str_rfind (CHR 0x0A) (take pos doc)
      in msg @ '': line '' @ str_nat lineno @ '' column '' @ str_int colno @
         '' (char '' @ str_nat pos @ '')'')"
| "py_str (AttributeError m) = m"
| "py_str (TypeError m) = m"
| "py_str (IndexError m) = m"
| "py_str (OSError m) = m"
| "py_str (KeyError k) = [CHR 0x27] @ k @ [CHR 0x27]"
| "py_str (OverflowError m) = m"
| "py_str (APIError m) = m"

fun is_JSONDecodeError :: "exn \<Rightarrow> bool" where
  "is_JSONDecodeError (JSONDecodeError msg doc pos) = True"
| "is_JSONDecodeError _ = False"

text \<open>Sequencing of statements that may raise: the first exception ends the block.\<close>

definition bind_result :: "'a result \<Rightarrow> ('a \<Rightarrow> 'b result) \<Rightarrow> 'b result" where
  "bind_result r f = (case r of Inl e \<Rightarrow> Inl e | Inr v \<Rightarrow> f v)"

fun type_name :: "pyval \<Rightarrow> string" where
  "type_name PyNone = ''NoneType''"
| "type_name (PyBool b) = ''bool''"
| "type_name (PyInt i) = ''int''"
| "type_name (PyFloat x) = ''float''"
| "type_name (PyStr s) = ''str''"
| "type_name (PyList xs) = ''list''"
| "type_name (PyDict kvs) = ''dict''"

text \<open>
  \<open>a + b\<close> where one operand is a \<open>str\<close>: the concatenation when both are, a
  \<open>TypeError\<close> otherwise.
\<close>

definition str_add :: "pyval \<Rightarrow> pyval \<Rightarrow> pyval result" where
  "str_add a b =
     (case (a, b) of
        (PyStr x, PyStr y) \<Rightarrow> Inr (PyStr (x @ y))
      | (PyStr x, _) \<Rightarrow>
          Inl (TypeError (''can only concatenate str (not '' @ [CHR 0x22] @ type_name b @
                          [CHR 0x22] @ '') to str''))
      | (PyList xs, _) \<Rightarrow>
          Inl (TypeError (''can only concatenate list (not '' @ [CHR 0x22] @ type_name b @
                          [CHR 0x22] @ '') to list''))
      | _ \<Rightarrow>
          Inl (TypeError (''unsupported operand type(s) for +: '' @ [CHR 0x27] @ type_name a @
                          [CHR 0x27] @ '' and '' @ [CHR 0x27] @ type_name b @ [CHR 0x27])))"

text \<open>Dictionary operations on association lists.\<close>

type_synonym pydict = "(string \<times> pyval) list"

definition dict_contains :: "pydict \<Rightarrow> string \<Rightarrow> bool" where
  "dict_contains d k = (map_of d k \<noteq> None)"

definition dict_setitem :: "pydict \<Rightarrow> string \<Rightarrow> pyval \<Rightarrow> pydict" where
  "dict_setitem d k v =
     (if dict_contains d k then map (\<lambda>(k', v'). if k' = k then (k', v) else (k', v')) d
      else d @ [(k, v)])"

definition setdefault :: "pydict \<Rightarrow> string \<Rightarrow> pyval \<Rightarrow> pydict" where
  "setdefault d k v = (if dict_contains d k then d else d @ [(k, v)])"

definition dict_getitem :: "pydict \<Rightarrow> string \<Rightarrow> pyval result" where
  "dict_getitem d k =
     (case map_of d k of None \<Rightarrow> Inl (KeyError k) | Some v \<Rightarrow> Inr v)"

subsection \<open>The chat-completion service and the process environment\<close>

record segment =
  seg_start :: real
  seg_end :: real
  seg_text :: string

record chat_request =
  req_model :: string
  req_messages :: "(string \<times> string) list"
  req_temperature :: real

text \<open>
  A response is the list of its choices, each with the \<open>content\<close> of its message
  (\<open>None\<close> when the message has none).
\<close>

type_synonym chat_response = "string option list"

text \<open>
  What the module reads from outside: whether \<open>import openai\<close> succeeded, the
  \<open>OPENAI_API_KEY\<close> entry of the process environment, the remote call
  \<open>client.chat.completions.create\<close> (given the key the client was built with), and the
  library function \<open>json.loads\<close>.
\<close>

record summarizer_env =
  OpenAI_imported :: bool
  OPENAI_API_KEY :: "string option"
  chat_completions_create :: "string \<Rightarrow> chat_request \<Rightarrow> chat_response result"
  json_loads :: "string \<Rightarrow> pyval result"

text \<open>What the module does to the outside: the requests sent, and the lines printed.\<close>

record world =
  network_calls :: "chat_request list"
  stdout :: "string list"

subsection \<open>The client\<close>

text \<open>The source function is \<open>_get_client\<close>; the client is represented by its key.\<close>

definition get_client :: "summarizer_env \<Rightarrow> string result" where
  "get_client env =
     (if \<not> OpenAI_imported env
      then Inl (ImportError ''OpenAI package is required. Install with: pip install openai'')
      else (case OPENAI_API_KEY env of
              None \<Rightarrow>
                Inl (ValueError (''OPENAI_API_KEY environment variable is not set. '' @
                                 ''Please set it with your OpenAI API key.''))
            | Some api_key \<Rightarrow>
                if api_key = []
                then Inl (ValueError (''OPENAI_API_KEY environment variable is not set. '' @
                                      ''Please set it with your OpenAI API key.''))
                else Inr api_key))"

subsection \<open>Analysis\<close>

definition summarize_system_prompt :: string where
  "summarize_system_prompt =
     str_join [CHR 0x0A]
     [''You are an expert AI Research Assistant. Your goal is to analyze video transcriptions with high academic rigor and clarity.'',
      ''Given a video transcription with timestamps, you must produce a structured academic analysis in JSON format:'',
      ''1. main_purpose: Identify the primary objective or thesis of the video (1-2 sentences).'',
      ''2. key_insights: Extract 5-8 significant takeaways or findings from the discourse.'',
      ''3. important_concepts: Highlight 3-5 core theoretical or practical concepts discussed.'',
      ''4. structured_summary: Generate a well-organized, multi-paragraph summary (3-5 paragraphs) covering the introduction, core arguments, and conclusion.'',
      ''5. keywords: List 5-10 academic keywords or technical terms.'',
      ''6. timestamped_highlights: Identify 3-6 critical moments with their exact timestamps in seconds.'',
      ''   Format: {'' @ [CHR 0x22] @ ''timestamp'' @ [CHR 0x22] @ '': <seconds>, '' @ [CHR 0x22] @ ''title'' @ [CHR 0x22] @ '': '' @ [CHR 0x22] @ ''<academic title>'' @ [CHR 0x22] @ '', '' @ [CHR 0x22] @ ''description'' @ [CHR 0x22] @ '': '' @ [CHR 0x22] @ ''<detailed analysis of the moment>'' @ [CHR 0x22] @ ''}'',
      '''',
      ''Maintain an academic, objective tone. Output as valid JSON with the specified keys.'']"

definition segment_line :: "segment \<Rightarrow> string" where
  "segment_line s =
     ''['' @ fmt_1f (seg_start s) @ ''s - '' @ fmt_1f (seg_end s) @ ''s] '' @ seg_text s"

definition summarize_user_prompt :: "string \<Rightarrow> string \<Rightarrow> string" where
  "summarize_user_prompt segments_text transcription =
     str_join [CHR 0x0A]
     [''As an AI Research Assistant, analyze this video transcription:'',
      '''',
      ''TRANSCRIPTION WITH TIMESTAMPS:'',
      segments_text,
      '''',
      ''FULL TEXT:'',
      transcription,
      '''',
      ''Provide the structured JSON response.'']"

text \<open>\<open>response.choices[0].message.content.strip()\<close>.\<close>

definition message_content :: "chat_response \<Rightarrow> string result" where
  "message_content choices =
     (case choices of
        [] \<Rightarrow> Inl (IndexError ''list index out of range'')
      | c # _ \<Rightarrow>
          (case c of
             None \<Rightarrow>
               Inl (AttributeError ([CHR 0x27] @ ''NoneType'' @ [CHR 0x27] @
                      '' object has no attribute '' @ [CHR 0x27] @ ''strip'' @ [CHR 0x27]))
           | Some s \<Rightarrow> Inr (str_strip s)))"

text \<open>The removal of a markdown code block around the content.\<close>

definition code_fence :: string where
  "code_fence = [CHR 0x60, CHR 0x60, CHR 0x60]"

definition remove_code_block :: "string \<Rightarrow> string result" where
  "remove_code_block content =
     (if startswith content code_fence
      then (case py_split code_fence content of
              _ # inner # _ \<Rightarrow>
                Inr (str_strip
                       (if startswith inner ''json'' then drop 4 inner
                        else if startswith inner ''JSON'' then drop 4 inner
                        else inner))
            | _ \<Rightarrow> Inl (IndexError ''list index out of range''))
      else Inr content)"

text \<open>
  The statements after \<open>json.loads\<close>: the six \<open>setdefault\<close> calls and the two
  compatibility entries. A decoded value that is not a \<open>dict\<close> has no \<open>setdefault\<close>.
\<close>

definition ensure_expected_keys :: "pydict \<Rightarrow> pydict" where
  "ensure_expected_keys d0 =
     (let d1 = setdefault d0 ''main_purpose'' (PyStr []);
          d2 = setdefault d1 ''key_insights'' (PyList []);
          d3 = setdefault d2 ''important_concepts'' (PyList []);
          d4 = setdefault d3 ''structured_summary'' (PyStr []);
          d5 = setdefault d4 ''keywords'' (PyList [])
      in setdefault d5 ''timestamped_highlights'' (PyList []))"

definition add_summary :: "pydict \<Rightarrow> pydict result" where
  "add_summary d =
     (if \<not> dict_contains d ''summary''
      then bind_result (dict_getitem d ''main_purpose'') (\<lambda>mp.
           bind_result (str_add mp (PyStr [CHR 0x0A, CHR 0x0A])) (\<lambda>head.
           bind_result (dict_getitem d ''structured_summary'') (\<lambda>ss.
           bind_result (str_add head ss) (\<lambda>v.
           Inr (dict_setitem d ''summary'' v)))))
      else Inr d)"

definition add_key_points :: "pydict \<Rightarrow> pydict result" where
  "add_key_points d =
     (if \<not> dict_contains d ''key_points''
      then bind_result (dict_getitem d ''key_insights'') (\<lambda>v.
           Inr (dict_setitem d ''key_points'' v))
      else Inr d)"

definition complete_result :: "pyval \<Rightarrow> pydict result" where
  "complete_result result =
     (case result of
        PyDict d \<Rightarrow>
          bind_result (add_summary (ensure_expected_keys d)) add_key_points
      | _ \<Rightarrow>
          Inl (AttributeError ([CHR 0x27] @ type_name result @ [CHR 0x27] @
                 '' object has no attribute '' @ [CHR 0x27] @ ''setdefault'' @ [CHR 0x27])))"

text \<open>The body of the \<open>try\<close> block once the request is built.\<close>

definition summarize_try :: "summarizer_env \<Rightarrow> string \<Rightarrow> chat_request \<Rightarrow> pydict result" where
  "summarize_try env client request =
     bind_result (chat_completions_create env client request) (\<lambda>response.
     bind_result (message_content response) (\<lambda>content.
     bind_result (remove_code_block content) (\<lambda>content'.
     bind_result (json_loads env content') complete_result)))"

definition parse_failure_result :: "exn \<Rightarrow> pydict" where
  "parse_failure_result e =
     [(''summary'', PyStr ''Summary generation completed but parsing failed.''),
      (''key_points'', PyList []),
      (''keywords'', PyList []),
      (''topics'', PyList []),
      (''timestamped_highlights'', PyList []),
      (''_parse_error'', PyStr (py_str e))]"

text \<open>The request that \<open>summarize_transcription\<close> sends.\<close>

definition summarize_request :: "string \<Rightarrow> segment list \<Rightarrow> string \<Rightarrow> chat_request" where
  "summarize_request transcription segments model =
     (let segments_text = str_join [CHR 0x0A] (map segment_line segments);
          user_prompt = summarize_user_prompt segments_text transcription
      in \<lparr>req_model = model,
          req_messages = [(''system'', summarize_system_prompt), (''user'', user_prompt)],
          req_temperature = 2 / 10\<rparr>)"

definition summarize_transcription ::
  "summarizer_env \<Rightarrow> string \<Rightarrow> segment list \<Rightarrow> string \<Rightarrow> world \<Rightarrow> pydict result \<times> world" where
  "summarize_transcription env transcription segments model w =
     (case get_client env of
        Inl e \<Rightarrow> (Inl e, w)
      | Inr client \<Rightarrow>
          (let request = summarize_request transcription segments model;
               w' = w\<lparr>network_calls := network_calls w @ [request]\<rparr>
           in case summarize_try env client request of
                Inr result \<Rightarrow> (Inr result, w')
              | Inl e \<Rightarrow>
                  if is_JSONDecodeError e then (Inr (parse_failure_result e), w')
                  else (Inl (RuntimeError (''OpenAI API error: '' @ py_str e)), w')))"

subsection \<open>Refinement\<close>

definition refine_system_prompt :: string where
  "refine_system_prompt =
     str_join [CHR 0x0A]
     [''You are an expert transcription editor. Your task is to take a raw, potentially '',
      ''noisy speech-to-text transcription and refine it into clear, professional text.'',
      '''',
      ''Rules:'',
      ''1. Fix punctuation, capitalization, and sentence structure.'',
      ''2. Remove filler words (um, uh, like, etc.) unless they are critical for meaning.'',
      ''3. Correct obvious misspellings based on context.'',
      ''4. DO NOT change the meaning or intent of the speaker.'',
      ''5. Provide the output as clear, well-structured paragraphs.'',
      ''6. Return ONLY the refined text.'']"

text \<open>The request that \<open>refine_transcription\<close> sends.\<close>

definition refine_request :: "string \<Rightarrow> string \<Rightarrow> chat_request" where
  "refine_request raw_transcription model =
     (let user_prompt =
            ''Please refine this transcription:'' @ [CHR 0x0A, CHR 0x0A] @ raw_transcription
      in \<lparr>req_model = model,
          req_messages = [(''system'', refine_system_prompt), (''user'', user_prompt)],
          req_temperature = 3 / 10\<rparr>)"

definition refine_try :: "summarizer_env \<Rightarrow> string \<Rightarrow> chat_request \<Rightarrow> string result" where
  "refine_try env client request =
     bind_result (chat_completions_create env client request) message_content"

definition refine_transcription ::
  "summarizer_env \<Rightarrow> string \<Rightarrow> string \<Rightarrow> world \<Rightarrow> string result \<times> world" where
  "refine_transcription env raw_transcription model w =
     (case get_client env of
        Inl e \<Rightarrow> (Inl e, w)
      | Inr client \<Rightarrow>
          (let request = refine_request raw_transcription model;
               w' = w\<lparr>network_calls := network_calls w @ [request]\<rparr>
           in case refine_try env client request of
                Inr refined \<Rightarrow> (Inr refined, w')
              | Inl e \<Rightarrow>
                  (Inr raw_transcription,
                   w'\<lparr>stdout := stdout w' @ [''Refine transcription error: '' @ py_str e]\<rparr>)))"

section \<open>video_processor.py: audio extraction and frame capture\<close>

subsection \<open>The media library and the filesystem\<close>

text \<open>
  The filesystem is the set of paths that exist. A frame is the pixel data that
  \<open>get_frame\<close> returns. An opened clip carries its metadata, its audio track (absent for
  a silent video), the frame decoder and the outcome of \<open>close\<close>; writing the audio track
  may leave the filesystem in any state.
\<close>

type_synonym filesystem = "string set"

datatype ndarray = NDArray "nat list"

text \<open>
  A timestamp is a Python float: a finite number, an infinity or NaN (the caller passes
  \<open>float(t)\<close> of whatever the model wrote). Comparisons with NaN are false; \<open>max(a, b)\<close>
  is \<open>b\<close> when \<open>b > a\<close> and \<open>a\<close> otherwise, \<open>min(a, b)\<close> is \<open>b\<close> when \<open>b < a\<close> and \<open>a\<close>
  otherwise; \<open>int(x)\<close> truncates a finite value and raises for the others.
\<close>

datatype pyfloat = Finite real | PosInf | NegInf | NaN

fun float_lt :: "pyfloat \<Rightarrow> pyfloat \<Rightarrow> bool" where
  "float_lt (Finite x) (Finite y) = (x < y)"
| "float_lt (Finite x) PosInf = True"
| "float_lt NegInf (Finite y) = True"
| "float_lt NegInf PosInf = True"
| "float_lt _ _ = False"

definition py_max :: "pyfloat \<Rightarrow> pyfloat \<Rightarrow> pyfloat" where
  "py_max a b = (if float_lt a b then b else a)"

definition py_min :: "pyfloat \<Rightarrow> pyfloat \<Rightarrow> pyfloat" where
  "py_min a b = (if float_lt b a then b else a)"

fun float_int :: "pyfloat \<Rightarrow> int result" where
  "float_int (Finite x) = Inr (py_int x)"
| "float_int PosInf = Inl (OverflowError ''cannot convert float infinity to integer'')"
| "float_int NegInf = Inl (OverflowError ''cannot convert float infinity to integer'')"
| "float_int NaN = Inl (ValueError ''cannot convert float NaN to integer'')"

record audio_track =
  write_audiofile :: "string \<Rightarrow> filesystem \<Rightarrow> exn option \<times> filesystem"

record clip =
  clip_duration :: real
  clip_fps :: real
  clip_w :: int
  clip_h :: int
  clip_audio :: "audio_track option"
  clip_get_frame :: "pyfloat \<Rightarrow> ndarray result"
  clip_close :: "exn option"

text \<open>
  What the module reads from outside: the class \<open>VideoFileClip\<close> (\<open>None\<close> when neither
  import of MoviePy succeeded), \<open>os.path.abspath\<close>, the name chosen by
  \<open>tempfile.NamedTemporaryFile\<close> for a suffix, the directory chosen by
  \<open>tempfile.mkdtemp\<close>, the outcome of \<open>os.makedirs\<close>, the conversion
  \<open>Image.fromarray(np.uint8(frame))\<close> (the image is represented by its pixel data) and the
  outcome of saving an image as PNG.
\<close>

record video_env =
  VideoFileClip :: "(string \<Rightarrow> clip result) option"
  abspath :: "string \<Rightarrow> string"
  NamedTemporaryFile :: "string \<Rightarrow> filesystem \<Rightarrow> string result"
  mkdtemp :: "filesystem \<Rightarrow> string result"
  makedirs :: "string \<Rightarrow> filesystem \<Rightarrow> exn option"
  Image_fromarray :: "ndarray \<Rightarrow> ndarray result"
  image_save :: "ndarray \<Rightarrow> string \<Rightarrow> filesystem \<Rightarrow> exn option"

subsection \<open>Audio extraction\<close>

text \<open>The body of the \<open>try\<close> block of \<open>extract_audio\<close>, up to the \<open>return\<close>.\<close>

definition write_audio ::
  "(string \<Rightarrow> clip result) \<Rightarrow> string \<Rightarrow> string \<Rightarrow> filesystem \<Rightarrow> exn option \<times> filesystem" where
  "write_audio open_clip video_path audio_path fs =
     (case open_clip video_path of
        Inl e \<Rightarrow> (Some e, fs)
      | Inr clip \<Rightarrow>
          (case clip_audio clip of
             None \<Rightarrow>
               (Some (AttributeError ([CHR 0x27] @ ''NoneType'' @ [CHR 0x27] @
                        '' object has no attribute '' @ [CHR 0x27] @ ''write_audiofile'' @
                        [CHR 0x27])), fs)
           | Some audio \<Rightarrow>
               (case write_audiofile audio audio_path fs of
                  (Some e, fs') \<Rightarrow> (Some e, fs')
                | (None, fs') \<Rightarrow>
                    (case clip_close clip of
                       Some e \<Rightarrow> (Some e, fs')
                     | None \<Rightarrow> (None, fs')))))"

definition extract_audio ::
  "video_env \<Rightarrow> string \<Rightarrow> string \<Rightarrow> filesystem \<Rightarrow> string result \<times> filesystem" where
  "extract_audio env video_path output_format fs =
     (case VideoFileClip env of
        None \<Rightarrow>
          (Inl (ImportError
                  ''MoviePy is required for audio extraction. Install with: pip install moviepy''),
           fs)
      | Some open_clip \<Rightarrow>
          if video_path \<notin> fs
          then (Inl (FileNotFoundError (''Video file not found: '' @ video_path)), fs)
          else
            (let video_path' = abspath env video_path
             in case NamedTemporaryFile env (''.'' @ output_format) fs of
                  Inl e \<Rightarrow> (Inl e, fs)
                | Inr audio_path \<Rightarrow>
                    (case write_audio open_clip video_path' audio_path (insert audio_path fs) of
                       (None, fs') \<Rightarrow> (Inr audio_path, fs')
                     | (Some e, fs') \<Rightarrow>
                         (Inl (RuntimeError (''Failed to extract audio: '' @ py_str e)),
                          if audio_path \<in> fs' then fs' - {audio_path} else fs'))))"

subsection \<open>Frame capture\<close>

text \<open>The body of the \<open>try\<close> block of \<open>capture_frame_at_timestamp\<close>.\<close>

definition read_frame :: "(string \<Rightarrow> clip result) \<Rightarrow> string \<Rightarrow> pyfloat \<Rightarrow> ndarray result" where
  "read_frame open_clip video_path timestamp_seconds =
     bind_result (open_clip video_path) (\<lambda>clip.
       let timestamp = py_min (py_max (Finite 0) timestamp_seconds)
                              (Finite (clip_duration clip - 1 / 100))
       in bind_result (clip_get_frame clip timestamp) (\<lambda>frame.
            case clip_close clip of
              Some e \<Rightarrow> Inl e
            | None \<Rightarrow> Inr frame))"

definition capture_frame_at_timestamp ::
  "video_env \<Rightarrow> string \<Rightarrow> pyfloat \<Rightarrow> filesystem \<Rightarrow> ndarray option" where
  "capture_frame_at_timestamp env video_path timestamp_seconds fs =
     (case VideoFileClip env of
        None \<Rightarrow> None
      | Some open_clip \<Rightarrow>
          if video_path \<notin> fs then None
          else (case read_frame open_clip video_path timestamp_seconds of
                  Inl e \<Rightarrow> None
                | Inr frame \<Rightarrow> Some frame))"

text \<open>\<open>os.path.join\<close> of a directory and a relative file name, for POSIX paths.\<close>

definition path_join :: "string \<Rightarrow> string \<Rightarrow> string" where
  "path_join dir name = (if dir = [] \<or> last dir = CHR ''/'' then dir @ name else dir @ ''/'' @ name)"

text \<open>The path of the image of a frame; \<open>int(ts)\<close> raises for a timestamp that is not finite.\<close>

definition frame_path :: "string \<Rightarrow> nat \<Rightarrow> pyfloat \<Rightarrow> string result" where
  "frame_path output_dir i ts =
     bind_result (float_int ts) (\<lambda>n.
       Inr (path_join output_dir (''frame_'' @ str_nat i @ ''_'' @ str_int n @ ''s.png'')))"

text \<open>
  The loop of \<open>capture_key_frames\<close> over \<open>enumerate(timestamps)\<close>, with the index, the
  list of results so far and the filesystem. Nothing in the loop body is inside a \<open>try\<close>:
  an exception of the conversion, of \<open>int(ts)\<close> or of the save ends the function.
\<close>

fun capture_loop ::
  "video_env \<Rightarrow> string \<Rightarrow> string \<Rightarrow> nat \<Rightarrow> pyfloat list \<Rightarrow> (pyfloat \<times> string) list \<Rightarrow> filesystem
     \<Rightarrow> (pyfloat \<times> string) list result \<times> filesystem" where
  "capture_loop env video_path output_dir i [] results fs = (Inr results, fs)"
| "capture_loop env video_path output_dir i (ts # rest) results fs =
     (case capture_frame_at_timestamp env video_path ts fs of
        None \<Rightarrow> capture_loop env video_path output_dir (i + 1) rest results fs
      | Some frame \<Rightarrow>
          (case Image_fromarray env frame of
             Inl e \<Rightarrow> (Inl e, fs)
           | Inr img \<Rightarrow>
               (case frame_path output_dir i ts of
                  Inl e \<Rightarrow> (Inl e, fs)
                | Inr img_path \<Rightarrow>
                    (case image_save env img img_path fs of
                       Some e \<Rightarrow> (Inl e, fs)
                     | None \<Rightarrow>
                         capture_loop env video_path output_dir (i + 1) rest
                           (results @ [(ts, img_path)]) (insert img_path fs)))))"

definition capture_key_frames ::
  "video_env \<Rightarrow> string \<Rightarrow> pyfloat list \<Rightarrow> string option \<Rightarrow> filesystem
     \<Rightarrow> (pyfloat \<times> string) list result \<times> filesystem" where
  "capture_key_frames env video_path timestamps output_dir fs =
     (case (case output_dir of
              None \<Rightarrow> (case mkdtemp env fs of
                          Inl e \<Rightarrow> (Inl e, fs)
                        | Inr d \<Rightarrow> (Inr d, insert d fs))
            | Some d \<Rightarrow> (Inr d, fs)) of
        (Inl e, fs0) \<Rightarrow> (Inl e, fs0)
      | (Inr dir, fs0) \<Rightarrow>
          (case makedirs env dir fs0 of
             Some e \<Rightarrow> (Inl e, fs0)
           | None \<Rightarrow> capture_loop env video_path dir 0 timestamps [] (insert dir fs0)))"

subsection \<open>Metadata\<close>

record video_info =
  info_duration :: real
  info_fps :: real
  info_width :: int
  info_height :: int

definition zero_info :: video_info where
  "zero_info = \<lparr>info_duration = 0, info_fps = 0, info_width = 0, info_height = 0\<rparr>"

text \<open>The bodies of the two \<open>try\<close> blocks.\<close>

definition read_duration :: "(string \<Rightarrow> clip result) \<Rightarrow> string \<Rightarrow> real result" where
  "read_duration open_clip video_path =
     bind_result (open_clip video_path) (\<lambda>clip.
       let duration = clip_duration clip
       in case clip_close clip of
            Some e \<Rightarrow> Inl e
          | None \<Rightarrow> Inr duration)"

definition read_info :: "(string \<Rightarrow> clip result) \<Rightarrow> string \<Rightarrow> video_info result" where
  "read_info open_clip video_path =
     bind_result (open_clip video_path) (\<lambda>clip.
       let info = \<lparr>info_duration = clip_duration clip, info_fps = clip_fps clip,
                   info_width = clip_w clip, info_height = clip_h clip\<rparr>
       in case clip_close clip of
            Some e \<Rightarrow> Inl e
          | None \<Rightarrow> Inr info)"

definition get_video_duration :: "video_env \<Rightarrow> string \<Rightarrow> filesystem \<Rightarrow> real result" where
  "get_video_duration env video_path fs =
     (case VideoFileClip env of
        None \<Rightarrow> Inr 0
      | Some open_clip \<Rightarrow>
          if video_path \<notin> fs then Inr 0
          else (case read_duration open_clip video_path of
                  Inl e \<Rightarrow> Inr 0
                | Inr duration \<Rightarrow> Inr duration))"

definition get_video_info :: "video_env \<Rightarrow> string \<Rightarrow> filesystem \<Rightarrow> video_info result" where
  "get_video_info env video_path fs =
     (case VideoFileClip env of
        None \<Rightarrow> Inr zero_info
      | Some open_clip \<Rightarrow>
          if video_path \<notin> fs then Inr zero_info
          else (case read_info open_clip video_path of
                  Inl e \<Rightarrow> Inr zero_info
                | Inr info \<Rightarrow> Inr info))"

section \<open>Example environments\<close>

text \<open>
  Concrete instances of the outside world, on which the definitions above are evaluated:
  a ten-second video whose frames decode at every position inside the stream, a video
  whose audio track cannot be written, and chat services that fail, answer with plain
  text, or answer with a JSON object.
\<close>

definition demo_frame :: ndarray where
  "demo_frame = NDArray [0, 0, 0]"

definition demo_clip :: clip where
  "demo_clip =
     \<lparr>clip_duration = 10, clip_fps = 30, clip_w = 640, clip_h = 360,
      clip_audio = None,
      clip_get_frame = (\<lambda>t. if float_lt t (Finite 0) \<or> \<not> float_lt t (Finite 10)
                             then Inl (OSError ''failed to read the frame'')
                             else Inr demo_frame),
      clip_close = None\<rparr>"

definition demo_video_env :: video_env where
  "demo_video_env =
     \<lparr>VideoFileClip = Some (\<lambda>path. Inr demo_clip),
      abspath = (\<lambda>path. path),
      NamedTemporaryFile = (\<lambda>suffix fs. Inr (''/tmp/tmp0'' @ suffix)),
      mkdtemp = (\<lambda>fs. Inr ''/tmp/frames''),
      makedirs = (\<lambda>dir fs. None),
      Image_fromarray = (\<lambda>frame. Inr frame),
      image_save = (\<lambda>img path fs. None)\<rparr>"

text \<open>A clip whose audio writer leaves a partial file behind and raises.\<close>

definition broken_audio :: audio_track where
  "broken_audio =
     \<lparr>write_audiofile = (\<lambda>path fs. (Some (OSError ''No space left on device''), insert path fs))\<rparr>"

definition broken_audio_env :: video_env where
  "broken_audio_env =
     demo_video_env\<lparr>VideoFileClip := Some (\<lambda>path. Inr (demo_clip\<lparr>clip_audio := Some broken_audio\<rparr>))\<rparr>"

text \<open>A video file that cannot be decoded.\<close>

definition corrupt_video_env :: video_env where
  "corrupt_video_env =
     demo_video_env\<lparr>VideoFileClip := Some (\<lambda>path. Inl (OSError ''could not read the file''))\<rparr>"

definition no_moviepy_env :: video_env where
  "no_moviepy_env = demo_video_env\<lparr>VideoFileClip := None\<rparr>"

definition world0 :: world where
  "world0 = \<lparr>network_calls = [], stdout = []\<rparr>"

text \<open>
  A decoder that accepts the one document \<open>{"keywords": null}\<close> and rejects every other
  text at its first character.
\<close>

definition keywords_null_document :: string where
  "keywords_null_document = ''{'' @ [CHR 0x22] @ ''keywords'' @ [CHR 0x22] @ '': null}''"

definition demo_json_loads :: "string \<Rightarrow> pyval result" where
  "demo_json_loads s =
     (if s = keywords_null_document then Inr (PyDict [(''keywords'', PyNone)])
      else Inl (JSONDecodeError ''Expecting value'' s 0))"

definition no_key_env :: summarizer_env where
  "no_key_env =
     \<lparr>OpenAI_imported = True,
      OPENAI_API_KEY = None,
      chat_completions_create = (\<lambda>client request. Inr [Some ''Refined text.'']),
      json_loads = demo_json_loads\<rparr>"

definition no_openai_env :: summarizer_env where
  "no_openai_env = no_key_env\<lparr>OpenAI_imported := False\<rparr>"

definition failing_api_env :: summarizer_env where
  "failing_api_env =
     no_key_env\<lparr>OPENAI_API_KEY := Some ''sk-test'',
                 chat_completions_create := (\<lambda>client request. Inl (APIError ''Connection error.''))\<rparr>"

definition plain_text_env :: summarizer_env where
  "plain_text_env =
     no_key_env\<lparr>OPENAI_API_KEY := Some ''sk-test'',
                 chat_completions_create :=
                   (\<lambda>client request. Inr [Some ''Sorry, I cannot analyse this video.''])\<rparr>"

definition keywords_null_env :: summarizer_env where
  "keywords_null_env =
     no_key_env\<lparr>OPENAI_API_KEY := Some ''sk-test'',
                 chat_completions_create := (\<lambda>client request. Inr [Some keywords_null_document])\<rparr>"

section \<open>Verified properties\<close>

subsection \<open>Timestamp formatting\<close>

lemmas fmt_eval =
  py_int_def py_floordiv_def py_mod_def fmt_02d_def zfill_def str_nat.simps digit_char_def

lemma py_mod_small: "0 \<le> x \<Longrightarrow> \<lfloor>x / y\<rfloor> = 0 \<Longrightarrow> py_mod x y = x"
  by (simp add: py_mod_def)

lemma py_int_floordiv: "py_int (py_floordiv x y) = \<lfloor>x / y\<rfloor>"
  by (simp add: py_int_def py_floordiv_def)

text \<open>
  Claim C7. \<open>format_timestamp(65)\<close> is \<open>01:05\<close> and \<open>format_timestamp(5)\<close> is \<open>00:05\<close>;
  \<open>format_timestamp_long(3661)\<close> is \<open>01:01:01\<close> and \<open>format_timestamp_long(65)\<close> is
  \<open>01:05\<close>. For a time offset (a non-negative number of seconds) the long format drops
  the hour field exactly when the hour component is zero: it is then the \<open>MM:SS\<close> text of
  \<open>format_timestamp\<close>, and otherwise the three fields \<open>HH:MM:SS\<close>.
\<close>

theorem format_timestamp_values:
  "format_timestamp 65 = ''01:05'' \<and>
   format_timestamp 5 = ''00:05'' \<and>
   format_timestamp_long 3661 = ''01:01:01'' \<and>
   format_timestamp_long 65 = ''01:05'' \<and>
   (\<forall>seconds\<ge>0.
      (py_int (py_floordiv seconds 3600) = 0 \<longrightarrow>
         format_timestamp_long seconds = format_timestamp seconds) \<and>
      (py_int (py_floordiv seconds 3600) \<noteq> 0 \<longrightarrow>
         format_timestamp_long seconds =
           fmt_02d (py_int (py_floordiv seconds 3600)) @ '':'' @
           fmt_02d (py_int (py_floordiv (py_mod seconds 3600) 60)) @ '':'' @
           fmt_02d (py_int (py_mod seconds 60))))"
proof (intro conjI allI impI)
  show "format_timestamp 65 = ''01:05''"
    by (simp add: format_timestamp_def fmt_eval)
  show "format_timestamp 5 = ''00:05''"
    by (simp add: format_timestamp_def fmt_eval)
  show "format_timestamp_long 3661 = ''01:01:01''"
    by (simp add: format_timestamp_long_def fmt_eval)
  show "format_timestamp_long 65 = ''01:05''"
    by (simp add: format_timestamp_long_def fmt_eval)
next
  fix seconds :: real
  assume nonneg: "0 \<le> seconds" and h0: "py_int (py_floordiv seconds 3600) = 0"
  from h0 have "\<lfloor>seconds / 3600\<rfloor> = 0" by (simp add: py_int_floordiv)
  with nonneg have "py_mod seconds 3600 = seconds" by (rule py_mod_small)
  with h0 show "format_timestamp_long seconds = format_timestamp seconds"
    by (simp add: format_timestamp_long_def format_timestamp_def Let_def)
next
  fix seconds :: real
  assume nonneg: "0 \<le> seconds" and h: "py_int (py_floordiv seconds 3600) \<noteq> 0"
  from nonneg have pos: "0 \<le> \<lfloor>seconds / 3600\<rfloor>" by simp
  from h have "\<lfloor>seconds / 3600\<rfloor> \<noteq> 0" unfolding py_int_floordiv .
  with pos have "0 < \<lfloor>seconds / 3600\<rfloor>" by linarith
  then have "py_int (py_floordiv seconds 3600) > 0" unfolding py_int_floordiv .
  then show "format_timestamp_long seconds =
           fmt_02d (py_int (py_floordiv seconds 3600)) @ '':'' @
           fmt_02d (py_int (py_floordiv (py_mod seconds 3600) 60)) @ '':'' @
           fmt_02d (py_int (py_mod seconds 60))"
    by (simp add: format_timestamp_long_def Let_def)
qed

theorem format_timestamp_values_witness:
  "(0::real) \<le> 3661 \<and> py_int (py_floordiv 3661 3600) \<noteq> 0 \<and>
   format_timestamp_long 3661 = ''01:01:01'' \<and>
   (0::real) \<le> 65 \<and> py_int (py_floordiv 65 3600) = 0 \<and>
   format_timestamp_long 65 = format_timestamp 65"
proof -
  note gen = format_timestamp_values
    [THEN conjunct2, THEN conjunct2, THEN conjunct2, THEN conjunct2, rule_format]
  have a: "(0::real) \<le> 3661" and b: "(0::real) \<le> 65" by simp_all
  have h1: "py_int (py_floordiv 3661 3600) \<noteq> 0" by (simp add: fmt_eval)
  have h2: "py_int (py_floordiv 65 3600) = 0" by (simp add: fmt_eval)
  from gen [OF a, THEN conjunct2, rule_format, OF h1]
  have "format_timestamp_long 3661 = ''01:01:01''" by (simp add: fmt_eval)
  moreover from gen [OF b, THEN conjunct1, rule_format, OF h2]
  have "format_timestamp_long 65 = format_timestamp 65" .
  ultimately show ?thesis using a b h1 h2 by simp
qed

subsection \<open>Recognising a YouTube URL\<close>

lemma startswith_iff: "startswith s p \<longleftrightarrow> (\<exists>post. s = p @ post)"
  unfolding startswith_def
  by (metis append_eq_conv_conj append_take_drop_id)

lemma str_in_iff: "str_in sub s \<longleftrightarrow> (\<exists>pre post. s = pre @ sub @ post)"
proof (induction s)
  case Nil
  show ?case by auto
next
  case (Cons c cs)
  show ?case
  proof
    assume "str_in sub (c # cs)"
    then consider "startswith (c # cs) sub" | "str_in sub cs" by auto
    then show "\<exists>pre post. c # cs = pre @ sub @ post"
    proof cases
      case 1
      then obtain post where "c # cs = sub @ post" by (auto simp: startswith_iff)
      then have "c # cs = [] @ sub @ post" by simp
      then show ?thesis by blast
    next
      case 2
      with Cons.IH obtain pre post where "cs = pre @ sub @ post" by auto
      then have "c # cs = (c # pre) @ sub @ post" by simp
      then show ?thesis by blast
    qed
  next
    assume "\<exists>pre post. c # cs = pre @ sub @ post"
    then obtain pre post where eq: "c # cs = pre @ sub @ post" by auto
    show "str_in sub (c # cs)"
    proof (cases pre)
      case Nil
      with eq have "startswith (c # cs) sub" by (auto simp: startswith_iff)
      then show ?thesis by simp
    next
      case (Cons a pre')
      with eq have "cs = pre' @ sub @ post" by simp
      with Cons.IH have "str_in sub cs" by blast
      then show ?thesis by simp
    qed
  qed
qed

text \<open>
  Claim C10. \<open>_is_youtube_url\<close> is false for every empty (falsy) or non-string
  input, and for a string it is true exactly when the trimmed, lower-cased text contains
  \<open>youtube.com\<close> or \<open>youtu.be\<close> somewhere, with any text before and after it.
\<close>

theorem is_youtube_url_spec:
  "(\<not> truthy url \<or> \<not> isinstance_str url \<longrightarrow> \<not> is_youtube_url url) \<and>
   (is_youtube_url (PyStr s) \<longleftrightarrow>
      (\<exists>pre post. str_lower (str_strip s) = pre @ ''youtube.com'' @ post) \<or>
      (\<exists>pre post. str_lower (str_strip s) = pre @ ''youtu.be'' @ post))"
proof
  show "\<not> truthy url \<or> \<not> isinstance_str url \<longrightarrow> \<not> is_youtube_url url"
    by (simp add: is_youtube_url_def)
next
  show "is_youtube_url (PyStr s) \<longleftrightarrow>
      (\<exists>pre post. str_lower (str_strip s) = pre @ ''youtube.com'' @ post) \<or>
      (\<exists>pre post. str_lower (str_strip s) = pre @ ''youtu.be'' @ post)"
  proof (cases "s = []")
    case True
    then show ?thesis
      by (simp add: is_youtube_url_def str_strip_def str_lower_def)
  next
    case False
    then show ?thesis
      by (simp add: is_youtube_url_def Let_def str_in_iff)
  qed
qed

lemmas text_eval = str_strip_def is_space_def str_lower_def char_lower_def startswith_def

theorem is_youtube_url_spec_witness:
  "\<not> truthy (PyStr []) \<and> \<not> is_youtube_url (PyStr []) \<and>
   \<not> isinstance_str (PyInt 7) \<and> \<not> is_youtube_url (PyInt 7) \<and>
   str_lower (str_strip '' https://example.org/?next=YouTu.be '') =
     ''https://example.org/?next='' @ ''youtu.be'' @ [] \<and>
   is_youtube_url (PyStr '' https://example.org/?next=YouTu.be '')"
proof -
  have a: "\<not> truthy (PyStr [])" and b: "\<not> isinstance_str (PyInt 7)" by simp_all
  have c: "str_lower (str_strip '' https://example.org/?next=YouTu.be '') =
     ''https://example.org/?next='' @ ''youtu.be'' @ []"
    by (simp add: text_eval)
  from is_youtube_url_spec [of "PyStr []", THEN conjunct1] a
  have 1: "\<not> is_youtube_url (PyStr [])" by blast
  from is_youtube_url_spec [of "PyInt 7", THEN conjunct1] b
  have 2: "\<not> is_youtube_url (PyInt 7)" by blast
  from is_youtube_url_spec [of _ "'' https://example.org/?next=YouTu.be ''", THEN conjunct2] c
  have 3: "is_youtube_url (PyStr '' https://example.org/?next=YouTu.be '')" by blast
  from a b c 1 2 3 show ?thesis by blast
qed

subsection \<open>Supported video formats\<close>

lemma supported_lower: "ext \<in> SUPPORTED_VIDEO_FORMATS \<Longrightarrow> str_lower ext = ext"
  unfolding SUPPORTED_VIDEO_FORMATS_def
  by (auto simp: str_lower_def char_lower_def)

lemma py_split_slash_none:
  "CHR ''/'' \<notin> set s \<Longrightarrow> py_split_from ''/'' cur s = [rev cur @ s]"
  by (induction s arbitrary: cur) (auto simp: startswith_def)

lemma str_rfind_ge: "- 1 \<le> str_rfind c s"
  by (induction s) (auto simp: Let_def)

lemma str_rfind_absent: "c \<notin> set s \<Longrightarrow> str_rfind c s = - 1"
  by (induction s) (auto simp: Let_def)

lemma str_rfind_last: "c \<notin> set ys \<Longrightarrow> str_rfind c (xs @ c # ys) = int (length xs)"
proof (induction xs)
  case Nil
  then show ?case by (simp add: str_rfind_absent Let_def)
next
  case (Cons x xs)
  then show ?case by (simp add: Let_def)
qed

lemma path_name_plain:
  assumes "CHR ''/'' \<notin> set name" "name \<noteq> []" "name \<noteq> ''.''"
  shows "path_name name = name"
  using assms by (simp add: path_name_def py_split_def py_split_slash_none)

lemma path_suffix_plain:
  assumes "stem \<noteq> []" "CHR ''/'' \<notin> set stem"
    and "ext \<noteq> []" "CHR ''/'' \<notin> set ext" "CHR ''.'' \<notin> set ext"
  shows "path_suffix (stem @ ''.'' @ ext) = ''.'' @ ext"
proof -
  let ?name = "stem @ ''.'' @ ext"
  have "length ?name \<noteq> length ''.''" using assms by (cases stem) auto
  then have "?name \<noteq> ''.''" by metis
  then have "path_name ?name = ?name"
    using assms by (intro path_name_plain) auto
  moreover have "str_rfind (CHR ''.'') ?name = int (length stem)"
    using assms str_rfind_last [of "CHR ''.''" ext stem] by simp
  ultimately show ?thesis
    using assms by (simp add: path_suffix_def Let_def)
qed

text \<open>
  Claim C8. \<open>is_supported_video\<close> is true exactly for the filenames whose dot-suffix
  equals a supported extension up to letter case. For a plain name \<open>stem.ext\<close> the
  dot-suffix is \<open>.ext\<close>.
\<close>

theorem is_supported_video_spec:
  "(is_supported_video filename \<longleftrightarrow>
      (\<exists>ext\<in>SUPPORTED_VIDEO_FORMATS. str_lower (path_suffix filename) = str_lower ext)) \<and>
   (stem \<noteq> [] \<and> CHR ''/'' \<notin> set stem \<and> ext \<noteq> [] \<and> CHR ''/'' \<notin> set ext \<and> CHR ''.'' \<notin> set ext \<longrightarrow>
      (is_supported_video (stem @ ''.'' @ ext) \<longleftrightarrow>
         (\<exists>e\<in>SUPPORTED_VIDEO_FORMATS. str_lower (''.'' @ ext) = str_lower e)))"
proof (intro conjI impI)
  show main: "\<And>f. is_supported_video f \<longleftrightarrow>
      (\<exists>ext\<in>SUPPORTED_VIDEO_FORMATS. str_lower (path_suffix f) = str_lower ext)"
    unfolding is_supported_video_def using supported_lower by force
  assume "stem \<noteq> [] \<and> CHR ''/'' \<notin> set stem \<and> ext \<noteq> [] \<and> CHR ''/'' \<notin> set ext \<and> CHR ''.'' \<notin> set ext"
  then have "path_suffix (stem @ ''.'' @ ext) = ''.'' @ ext"
    by (intro path_suffix_plain) auto
  with main [of "stem @ ''.'' @ ext"]
  show "is_supported_video (stem @ ''.'' @ ext) \<longleftrightarrow>
         (\<exists>e\<in>SUPPORTED_VIDEO_FORMATS. str_lower (''.'' @ ext) = str_lower e)"
    by simp
qed

lemmas path_eval = is_supported_video_def path_suffix_def path_name_def py_split_def
  SUPPORTED_VIDEO_FORMATS_def

theorem is_supported_video_spec_witness:
  "''.mkv'' \<in> SUPPORTED_VIDEO_FORMATS \<and>
   str_lower (path_suffix ''/tmp/Lecture 1.MKV'') = str_lower ''.mkv'' \<and>
   is_supported_video ''/tmp/Lecture 1.MKV'' \<and>
   (''talk'' \<noteq> [] \<and> CHR ''/'' \<notin> set ''talk'' \<and> ''Mp4'' \<noteq> [] \<and> CHR ''/'' \<notin> set ''Mp4'' \<and>
    CHR ''.'' \<notin> set ''Mp4'') \<and>
   is_supported_video (''talk'' @ ''.'' @ ''Mp4'') \<and>
   \<not> is_supported_video ''notes.txt''"
proof -
  have a: "''.mkv'' \<in> SUPPORTED_VIDEO_FORMATS"
    by (simp add: SUPPORTED_VIDEO_FORMATS_def)
  have b: "str_lower (path_suffix ''/tmp/Lecture 1.MKV'') = str_lower ''.mkv''"
    by (simp add: path_eval text_eval)
  from a b is_supported_video_spec [of "''/tmp/Lecture 1.MKV''", THEN conjunct1]
  have 1: "is_supported_video ''/tmp/Lecture 1.MKV''" by blast
  have c: "''talk'' \<noteq> [] \<and> CHR ''/'' \<notin> set ''talk'' \<and> ''Mp4'' \<noteq> [] \<and> CHR ''/'' \<notin> set ''Mp4'' \<and>
    CHR ''.'' \<notin> set ''Mp4''" by simp
  have d: "''.mp4'' \<in> SUPPORTED_VIDEO_FORMATS \<and> str_lower (''.'' @ ''Mp4'') = str_lower ''.mp4''"
    by (simp add: SUPPORTED_VIDEO_FORMATS_def text_eval)
  from c d is_supported_video_spec [of _ "''talk''" "''Mp4''", THEN conjunct2]
  have 2: "is_supported_video (''talk'' @ ''.'' @ ''Mp4'')" by blast
  have e: "\<not> (\<exists>ext\<in>SUPPORTED_VIDEO_FORMATS. str_lower (path_suffix ''notes.txt'') = str_lower ext)"
    by (simp add: path_eval text_eval)
  with is_supported_video_spec [of "''notes.txt''", THEN conjunct1]
  have 3: "\<not> is_supported_video ''notes.txt''" by blast
  from a b c 1 2 3 show ?thesis by blast
qed

subsection \<open>Video metadata\<close>

text \<open>
  Claim C9. \<open>get_video_info\<close> and \<open>get_video_duration\<close> always return a value, for
  every environment, path and filesystem. When the media library is unavailable, the path does
  not exist, or the \<open>try\<close> block raises (the clip cannot be opened or closed), they return
  the zeroed metadata record and \<open>0.0\<close>.
\<close>

theorem video_metadata_never_raises:
  "(\<exists>info. get_video_info env video_path fs = Inr info) \<and>
   (\<exists>duration. get_video_duration env video_path fs = Inr duration) \<and>
   (VideoFileClip env = None \<or> video_path \<notin> fs \<or>
    (\<exists>open_clip e. VideoFileClip env = Some open_clip \<and> read_info open_clip video_path = Inl e)
      \<longrightarrow> get_video_info env video_path fs = Inr zero_info) \<and>
   (VideoFileClip env = None \<or> video_path \<notin> fs \<or>
    (\<exists>open_clip e. VideoFileClip env = Some open_clip \<and> read_duration open_clip video_path = Inl e)
      \<longrightarrow> get_video_duration env video_path fs = Inr 0)"
proof (intro conjI impI)
  show "\<exists>info. get_video_info env video_path fs = Inr info"
    by (simp add: get_video_info_def split: option.split sum.split)
  show "\<exists>duration. get_video_duration env video_path fs = Inr duration"
    by (simp add: get_video_duration_def split: option.split sum.split)
next
  assume "VideoFileClip env = None \<or> video_path \<notin> fs \<or>
    (\<exists>open_clip e. VideoFileClip env = Some open_clip \<and> read_info open_clip video_path = Inl e)"
  then show "get_video_info env video_path fs = Inr zero_info"
    by (auto simp: get_video_info_def split: option.split)
next
  assume "VideoFileClip env = None \<or> video_path \<notin> fs \<or>
    (\<exists>open_clip e. VideoFileClip env = Some open_clip \<and> read_duration open_clip video_path = Inl e)"
  then show "get_video_duration env video_path fs = Inr 0"
    by (auto simp: get_video_duration_def split: option.split)
qed

lemmas video_demo_eval =
  demo_video_env_def demo_clip_def corrupt_video_env_def no_moviepy_env_def broken_audio_env_def
  broken_audio_def demo_frame_def

theorem video_metadata_never_raises_witness:
  "VideoFileClip no_moviepy_env = None \<and>
   get_video_info no_moviepy_env ''talk.mp4'' {''talk.mp4''} = Inr zero_info \<and>
   ''talk.mp4'' \<notin> {''other.mp4''} \<and>
   get_video_duration demo_video_env ''talk.mp4'' {''other.mp4''} = Inr 0 \<and>
   read_info (\<lambda>path. Inl (OSError ''could not read the file'')) ''talk.mp4'' =
     Inl (OSError ''could not read the file'') \<and>
   get_video_info corrupt_video_env ''talk.mp4'' {''talk.mp4''} = Inr zero_info \<and>
   get_video_info demo_video_env ''talk.mp4'' {''talk.mp4''} =
     Inr \<lparr>info_duration = 10, info_fps = 30, info_width = 640, info_height = 360\<rparr>"
proof -
  have a: "VideoFileClip no_moviepy_env = None" by (simp add: video_demo_eval)
  from a video_metadata_never_raises [of no_moviepy_env "''talk.mp4''" "{''talk.mp4''}"]
  have 1: "get_video_info no_moviepy_env ''talk.mp4'' {''talk.mp4''} = Inr zero_info" by blast
  have b: "''talk.mp4'' \<notin> {''other.mp4''}" by simp
  from b video_metadata_never_raises [of demo_video_env "''talk.mp4''" "{''other.mp4''}"]
  have 2: "get_video_duration demo_video_env ''talk.mp4'' {''other.mp4''} = Inr 0" by blast
  have c: "VideoFileClip corrupt_video_env = Some (\<lambda>path. Inl (OSError ''could not read the file''))"
    by (simp add: video_demo_eval)
  have d: "read_info (\<lambda>path. Inl (OSError ''could not read the file'')) ''talk.mp4'' =
     Inl (OSError ''could not read the file'')"
    by (simp add: read_info_def bind_result_def)
  from c d video_metadata_never_raises [of corrupt_video_env "''talk.mp4''" "{''talk.mp4''}"]
  have 3: "get_video_info corrupt_video_env ''talk.mp4'' {''talk.mp4''} = Inr zero_info" by blast
  have 4: "get_video_info demo_video_env ''talk.mp4'' {''talk.mp4''} =
     Inr \<lparr>info_duration = 10, info_fps = 30, info_width = 640, info_height = 360\<rparr>"
    by (simp add: get_video_info_def read_info_def bind_result_def video_demo_eval)
  from a b d 1 2 3 4 show ?thesis by blast
qed

subsection \<open>Audio extraction and key frames\<close>

text \<open>
  Claim C6. For an existing video path, once the temporary output file has been created, a
  failure of the decode/write step (opening the clip, writing its audio track, closing the
  clip) makes \<open>extract_audio\<close> raise \<open>RuntimeError\<close> with the text of the underlying
  exception, and the temporary file is not in the filesystem that is left behind, whatever
  the failed step did to it.
\<close>

theorem extract_audio_removes_partial_file:
  "VideoFileClip env = Some open_clip \<Longrightarrow>
   video_path \<in> fs \<Longrightarrow>
   NamedTemporaryFile env (''.'' @ output_format) fs = Inr audio_path \<Longrightarrow>
   write_audio open_clip (abspath env video_path) audio_path (insert audio_path fs) = (Some e, fs') \<Longrightarrow>
   extract_audio env video_path output_format fs =
     (Inl (RuntimeError (''Failed to extract audio: '' @ py_str e)), fs' - {audio_path}) \<and>
   audio_path \<notin> snd (extract_audio env video_path output_format fs)"
  by (simp add: extract_audio_def Let_def)

theorem extract_audio_removes_partial_file_witness:
  "VideoFileClip broken_audio_env = Some (\<lambda>path. Inr (demo_clip\<lparr>clip_audio := Some broken_audio\<rparr>)) \<and>
   ''talk.mp4'' \<in> {''talk.mp4''} \<and>
   NamedTemporaryFile broken_audio_env (''.'' @ ''mp3'') {''talk.mp4''} = Inr ''/tmp/tmp0.mp3'' \<and>
   write_audio (\<lambda>path. Inr (demo_clip\<lparr>clip_audio := Some broken_audio\<rparr>))
     (abspath broken_audio_env ''talk.mp4'') ''/tmp/tmp0.mp3'' (insert ''/tmp/tmp0.mp3'' {''talk.mp4''}) =
     (Some (OSError ''No space left on device''), {''/tmp/tmp0.mp3'', ''talk.mp4''}) \<and>
   extract_audio broken_audio_env ''talk.mp4'' ''mp3'' {''talk.mp4''} =
     (Inl (RuntimeError ''Failed to extract audio: No space left on device''), {''talk.mp4''})"
proof -
  have a: "VideoFileClip broken_audio_env =
      Some (\<lambda>path. Inr (demo_clip\<lparr>clip_audio := Some broken_audio\<rparr>))"
    by (simp add: broken_audio_env_def)
  have b: "''talk.mp4'' \<in> {''talk.mp4''}" by simp
  have c: "NamedTemporaryFile broken_audio_env (''.'' @ ''mp3'') {''talk.mp4''} = Inr ''/tmp/tmp0.mp3''"
    by (simp add: broken_audio_env_def demo_video_env_def)
  have d: "write_audio (\<lambda>path. Inr (demo_clip\<lparr>clip_audio := Some broken_audio\<rparr>))
     (abspath broken_audio_env ''talk.mp4'') ''/tmp/tmp0.mp3'' (insert ''/tmp/tmp0.mp3'' {''talk.mp4''}) =
     (Some (OSError ''No space left on device''), {''/tmp/tmp0.mp3'', ''talk.mp4''})"
    by (simp add: write_audio_def broken_audio_def)
  from extract_audio_removes_partial_file [OF a b c d]
  have "extract_audio broken_audio_env ''talk.mp4'' ''mp3'' {''talk.mp4''} =
     (Inl (RuntimeError ''Failed to extract audio: No space left on device''), {''talk.mp4''})"
    by simp
  with a b c d show ?thesis by blast
qed

lemma capture_frame_fs:
  "video_path \<in> fs \<Longrightarrow> video_path \<in> fs' \<Longrightarrow>
   capture_frame_at_timestamp env video_path ts fs' = capture_frame_at_timestamp env video_path ts fs"
  by (simp add: capture_frame_at_timestamp_def split: option.split)

lemma frame_path_finite:
  "frame_path dir i (Finite x) =
     Inr (path_join dir (''frame_'' @ str_nat i @ ''_'' @ str_int (py_int x) @ ''s.png''))"
  by (simp add: frame_path_def bind_result_def)

lemma capture_loop_frames:
  assumes conv: "\<forall>frame. \<exists>img. Image_fromarray env frame = Inr img"
    and saves: "\<forall>img path fs. image_save env img path fs = None"
    and ex: "video_path \<in> fs"
    and fin: "\<forall>ts\<in>set tss. \<exists>x. ts = Finite x"
  shows "\<exists>frames fs'.
           capture_loop env video_path dir i tss results fs = (Inr (results @ frames), fs') \<and>
           map fst frames =
             filter (\<lambda>ts. capture_frame_at_timestamp env video_path ts fs \<noteq> None) tss"
  using ex fin
proof (induction tss arbitrary: i results fs)
  case Nil
  show ?case by simp
next
  case (Cons ts rest)
  from Cons.prems(2) have fin': "\<forall>ts\<in>set rest. \<exists>x. ts = Finite x" by simp
  show ?case
  proof (cases "capture_frame_at_timestamp env video_path ts fs")
    case None
    with Cons.IH [OF Cons.prems(1) fin', of "i + 1" results] show ?thesis by simp
  next
    case (Some frame)
    from conv obtain img where img: "Image_fromarray env frame = Inr img" by blast
    from Cons.prems(2) obtain x where x: "ts = Finite x" by auto
    define p where "p = path_join dir (''frame_'' @ str_nat i @ ''_'' @ str_int (py_int x) @ ''s.png'')"
    have path: "frame_path dir i ts = Inr p"
      unfolding x p_def by (rule frame_path_finite)
    let ?fs = "insert p fs"
    have in': "video_path \<in> ?fs" using Cons.prems(1) by simp
    have same: "\<And>t. capture_frame_at_timestamp env video_path t ?fs =
                    capture_frame_at_timestamp env video_path t fs"
      using capture_frame_fs [OF Cons.prems(1) in'] .
    from Cons.IH [OF in' fin', of "i + 1" "results @ [(ts, p)]"]
    obtain frames fs' where
      run: "capture_loop env video_path dir (i + 1) rest (results @ [(ts, p)]) ?fs =
              (Inr ((results @ [(ts, p)]) @ frames), fs')"
      and fsts: "map fst frames =
              filter (\<lambda>t. capture_frame_at_timestamp env video_path t fs \<noteq> None) rest"
      by (auto simp: same)
    have "capture_loop env video_path dir i (ts # rest) results fs =
            (Inr (results @ ((ts, p) # frames)), fs')"
      using Some img path saves run by simp
    moreover have "map fst ((ts, p) # frames) =
        filter (\<lambda>t. capture_frame_at_timestamp env video_path t fs \<noteq> None) (ts # rest)"
      using Some fsts by simp
    ultimately show ?thesis by blast
  qed
qed

lemma clamp_finite:
  "py_min (py_max (Finite 0) (Finite x)) (Finite d) = Finite (min (max 0 x) d)"
  by (auto simp: py_min_def py_max_def)

lemma read_frame_clamped:
  assumes "open_clip video_path = Inr clip" "clip_close clip = None"
  shows "(case read_frame open_clip video_path (Finite x) of
            Inl e \<Rightarrow> None | Inr frame \<Rightarrow> Some frame) =
         (case clip_get_frame clip (Finite (min (max 0 x) (clip_duration clip - 1 / 100))) of
            Inl e \<Rightarrow> None | Inr frame \<Rightarrow> Some frame)"
  using assms
  by (simp add: read_frame_def bind_result_def Let_def clamp_finite split: sum.split)

lemma key_frames_filter:
  assumes "\<forall>fs. \<exists>d. mkdtemp env fs = Inr d"
    and "\<forall>d fs. makedirs env d fs = None"
    and "\<forall>frame. \<exists>img. Image_fromarray env frame = Inr img"
    and "\<forall>img path fs. image_save env img path fs = None"
    and "video_path \<in> fs"
    and "\<forall>ts\<in>set timestamps. \<exists>x. ts = Finite x"
  shows "\<exists>frames fs'. capture_key_frames env video_path timestamps output_dir fs = (Inr frames, fs') \<and>
           map fst frames =
             filter (\<lambda>ts. capture_frame_at_timestamp env video_path ts fs \<noteq> None) timestamps"
proof -
  obtain dir fs0 where dir:
    "(case output_dir of
        None \<Rightarrow> (case mkdtemp env fs of Inl e \<Rightarrow> (Inl e, fs) | Inr d \<Rightarrow> (Inr d, insert d fs))
      | Some d \<Rightarrow> (Inr d, fs)) = (Inr dir, fs0)" and sub: "fs \<subseteq> fs0"
  proof (cases output_dir)
    case None
    from assms(1) obtain d where "mkdtemp env fs = Inr d" by blast
    with None that [of d "insert d fs"] show ?thesis by auto
  next
    case (Some d)
    with that [of d fs] show ?thesis by auto
  qed
  let ?fs = "insert dir fs0"
  have in0: "video_path \<in> ?fs" using assms(5) sub by auto
  have same: "\<And>t. capture_frame_at_timestamp env video_path t ?fs =
                  capture_frame_at_timestamp env video_path t fs"
    using capture_frame_fs [OF assms(5) in0] .
  from capture_loop_frames [OF assms(3) assms(4) in0 assms(6), of dir 0 "[]"]
  obtain frames fs' where
    loop: "capture_loop env video_path dir 0 timestamps [] ?fs = (Inr frames, fs')"
    and fsts: "map fst frames =
      filter (\<lambda>ts. capture_frame_at_timestamp env video_path ts fs \<noteq> None) timestamps"
    by (auto simp: same)
  have run: "capture_key_frames env video_path timestamps output_dir fs =
      capture_loop env video_path dir 0 timestamps [] ?fs"
    using dir assms(2) by (simp add: capture_key_frames_def)
  from run loop fsts show ?thesis by simp
qed

lemma clamp_in_range:
  "(1 / 100 :: real) \<le> d \<Longrightarrow>
   0 \<le> min (max 0 x) (d - 1 / 100) \<and> min (max 0 x) (d - 1 / 100) \<le> d - 1 / 100"
  by auto

text \<open>
  Claim C3, as amended. For finite timestamps and an existing video path, when the output
  directory can be created and every captured frame can be converted and saved as an image,
  \<open>capture_key_frames\<close> raises nothing and returns, in request order, one record for each
  timestamp whose capture succeeded: a failed capture is skipped. For a clip that opens and
  closes, the capture of the timestamp \<open>x\<close> decodes at exactly the position
  \<open>min(max(0, x), duration - 0.01)\<close>, which lies in \<open>[0, duration - 0.01]\<close> when the clip lasts
  at least 0.01 s. So an out-of-range timestamp is captured too, under its original value: if
  every position of that interval decodes, there is one record per requested timestamp, two
  for one in-range and one out-of-range timestamp.
\<close>

theorem capture_key_frames_skips_failed_captures:
  "(\<forall>fs. \<exists>d. mkdtemp env fs = Inr d) \<Longrightarrow>
   (\<forall>d fs. makedirs env d fs = None) \<Longrightarrow>
   (\<forall>frame. \<exists>img. Image_fromarray env frame = Inr img) \<Longrightarrow>
   (\<forall>img path fs. image_save env img path fs = None) \<Longrightarrow>
   video_path \<in> fs \<Longrightarrow>
   (\<forall>ts\<in>set timestamps. \<exists>x. ts = Finite x) \<Longrightarrow>
   (\<exists>frames fs'.
      capture_key_frames env video_path timestamps output_dir fs = (Inr frames, fs') \<and>
      map fst frames =
        filter (\<lambda>ts. capture_frame_at_timestamp env video_path ts fs \<noteq> None) timestamps) \<and>
   (VideoFileClip env = Some open_clip \<and> open_clip video_path = Inr clip \<and>
    clip_close clip = None \<longrightarrow>
      capture_frame_at_timestamp env video_path (Finite x) fs =
        (case clip_get_frame clip (Finite (min (max 0 x) (clip_duration clip - 1 / 100))) of
           Inl e \<Rightarrow> None | Inr frame \<Rightarrow> Some frame) \<and>
      (1 / 100 \<le> clip_duration clip \<longrightarrow>
         0 \<le> min (max 0 x) (clip_duration clip - 1 / 100) \<and>
         min (max 0 x) (clip_duration clip - 1 / 100) \<le> clip_duration clip - 1 / 100 \<and>
         ((\<forall>t. 0 \<le> t \<and> t \<le> clip_duration clip - 1 / 100 \<longrightarrow>
                (\<exists>frame. clip_get_frame clip (Finite t) = Inr frame)) \<longrightarrow>
          (\<exists>frames fs'.
             capture_key_frames env video_path timestamps output_dir fs = (Inr frames, fs') \<and>
             map fst frames = timestamps))))"
proof (intro conjI impI)
  assume w1: "\<forall>fs. \<exists>d. mkdtemp env fs = Inr d"
    and w2: "\<forall>d fs. makedirs env d fs = None"
    and w3: "\<forall>frame. \<exists>img. Image_fromarray env frame = Inr img"
    and w4: "\<forall>img path fs. image_save env img path fs = None"
    and ex: "video_path \<in> fs"
    and fin: "\<forall>ts\<in>set timestamps. \<exists>x. ts = Finite x"
  show filt: "\<exists>frames fs'.
      capture_key_frames env video_path timestamps output_dir fs = (Inr frames, fs') \<and>
      map fst frames =
        filter (\<lambda>ts. capture_frame_at_timestamp env video_path ts fs \<noteq> None) timestamps"
    using w1 w2 w3 w4 ex fin by (rule key_frames_filter)
  assume "VideoFileClip env = Some open_clip \<and> open_clip video_path = Inr clip \<and>
    clip_close clip = None"
  then have lib: "VideoFileClip env = Some open_clip" and opened: "open_clip video_path = Inr clip"
    and closed: "clip_close clip = None"
    by simp_all
  have capture: "\<And>y. capture_frame_at_timestamp env video_path (Finite y) fs =
      (case clip_get_frame clip (Finite (min (max 0 y) (clip_duration clip - 1 / 100))) of
         Inl e \<Rightarrow> None | Inr frame \<Rightarrow> Some frame)"
    using lib ex read_frame_clamped [of open_clip video_path clip, OF opened closed]
    by (simp add: capture_frame_at_timestamp_def)
  show "capture_frame_at_timestamp env video_path (Finite x) fs =
        (case clip_get_frame clip (Finite (min (max 0 x) (clip_duration clip - 1 / 100))) of
           Inl e \<Rightarrow> None | Inr frame \<Rightarrow> Some frame)"
    by (rule capture)
  assume long: "1 / 100 \<le> clip_duration clip"
  from clamp_in_range [OF long, of x]
  show "0 \<le> min (max 0 x) (clip_duration clip - 1 / 100)"
    and "min (max 0 x) (clip_duration clip - 1 / 100) \<le> clip_duration clip - 1 / 100"
    by simp_all
  assume all: "\<forall>t. 0 \<le> t \<and> t \<le> clip_duration clip - 1 / 100 \<longrightarrow>
             (\<exists>frame. clip_get_frame clip (Finite t) = Inr frame)"
  have "capture_frame_at_timestamp env video_path ts fs \<noteq> None" if "ts \<in> set timestamps" for ts
  proof -
    from fin that obtain y where y: "ts = Finite y" by auto
    from all clamp_in_range [OF long, of y]
    obtain frame where
      "clip_get_frame clip (Finite (min (max 0 y) (clip_duration clip - 1 / 100))) = Inr frame"
      by blast
    with capture [of y] y show ?thesis by simp
  qed
  then have "filter (\<lambda>ts. capture_frame_at_timestamp env video_path ts fs \<noteq> None) timestamps =
      timestamps"
    by (simp add: filter_id_conv)
  with filt show "\<exists>frames fs'.
             capture_key_frames env video_path timestamps output_dir fs = (Inr frames, fs') \<and>
             map fst frames = timestamps"
    by simp
qed

theorem capture_key_frames_skips_failed_captures_witness:
  "(\<forall>fs. \<exists>d. mkdtemp demo_video_env fs = Inr d) \<and>
   (\<forall>d fs. makedirs demo_video_env d fs = None) \<and>
   (\<forall>frame. \<exists>img. Image_fromarray demo_video_env frame = Inr img) \<and>
   (\<forall>img path fs. image_save demo_video_env img path fs = None) \<and>
   ''talk.mp4'' \<in> {''talk.mp4''} \<and>
   \<not> (\<exists>ts. ts \<in> set [Finite 5, Finite 1000] \<and> (\<forall>x. ts \<noteq> Finite x)) \<and>
   (VideoFileClip demo_video_env = Some (\<lambda>path. Inr demo_clip) \<and>
    (\<lambda>path. Inr demo_clip) ''talk.mp4'' = Inr demo_clip \<and>
    clip_close demo_clip = None) \<and>
   1 / 100 \<le> clip_duration demo_clip \<and>
   \<not> (\<exists>t. 0 \<le> t \<and> t \<le> clip_duration demo_clip - 1 / 100 \<and>
          (\<forall>frame. clip_get_frame demo_clip (Finite t) \<noteq> Inr frame)) \<and>
   capture_frame_at_timestamp demo_video_env ''talk.mp4'' (Finite 1000) {''talk.mp4''} =
     (case clip_get_frame demo_clip (Finite (min (max 0 1000) (clip_duration demo_clip - 1 / 100))) of
        Inl e \<Rightarrow> None | Inr frame \<Rightarrow> Some frame) \<and>
   (\<exists>frames fs'.
      capture_key_frames demo_video_env ''talk.mp4'' [Finite 5, Finite 1000] None {''talk.mp4''} =
        (Inr frames, fs') \<and>
      map fst frames = [Finite 5, Finite 1000])"
proof -
  have w1: "\<forall>fs. \<exists>d. mkdtemp demo_video_env fs = Inr d"
    and w2: "\<forall>d fs. makedirs demo_video_env d fs = None"
    and w3: "\<forall>frame. \<exists>img. Image_fromarray demo_video_env frame = Inr img"
    and w4: "\<forall>img path fs. image_save demo_video_env img path fs = None"
    by (simp_all add: demo_video_env_def)
  have ex: "''talk.mp4'' \<in> {''talk.mp4''}" by simp
  have fin: "\<forall>ts\<in>set [Finite 5, Finite 1000]. \<exists>x. ts = Finite x" by simp
  have clip: "VideoFileClip demo_video_env = Some (\<lambda>path. Inr demo_clip) \<and>
    (\<lambda>path. Inr demo_clip) ''talk.mp4'' = Inr demo_clip \<and>
    clip_close demo_clip = None"
    by (simp add: demo_video_env_def demo_clip_def)
  have long: "1 / 100 \<le> clip_duration demo_clip" by (simp add: demo_clip_def)
  have all: "\<forall>t. 0 \<le> t \<and> t \<le> clip_duration demo_clip - 1 / 100 \<longrightarrow>
          (\<exists>frame. clip_get_frame demo_clip (Finite t) = Inr frame)"
    by (simp add: demo_clip_def)
  note main = capture_key_frames_skips_failed_captures
    [OF w1 w2 w3 w4 ex fin, of None "\<lambda>path. Inr demo_clip" demo_clip 1000, THEN conjunct2,
     THEN mp, OF clip]
  from main [THEN conjunct1]
  have pos: "capture_frame_at_timestamp demo_video_env ''talk.mp4'' (Finite 1000) {''talk.mp4''} =
     (case clip_get_frame demo_clip (Finite (min (max 0 1000) (clip_duration demo_clip - 1 / 100))) of
        Inl e \<Rightarrow> None | Inr frame \<Rightarrow> Some frame)" .
  from main [THEN conjunct2, THEN mp, OF long, THEN conjunct2, THEN conjunct2, THEN mp, OF all]
  have two: "\<exists>frames fs'.
      capture_key_frames demo_video_env ''talk.mp4'' [Finite 5, Finite 1000] None {''talk.mp4''} =
        (Inr frames, fs') \<and>
      map fst frames = [Finite 5, Finite 1000]" .
  from fin have fin': "\<not> (\<exists>ts. ts \<in> set [Finite 5, Finite 1000] \<and> (\<forall>x. ts \<noteq> Finite x))"
    by blast
  from all have all': "\<not> (\<exists>t. 0 \<le> t \<and> t \<le> clip_duration demo_clip - 1 / 100 \<and>
          (\<forall>frame. clip_get_frame demo_clip (Finite t) \<noteq> Inr frame))"
    by blast
  from w1 w2 w3 w4 ex fin' clip long all' pos two show ?thesis by blast
qed

lemmas capture_eval =
  capture_key_frames_def capture_frame_at_timestamp_def read_frame_def bind_result_def
  frame_path_def path_join_def str_int_def py_int_def str_nat.simps digit_char_def
  py_min_def py_max_def

text \<open>
  On the ten-second example video the position 1000 does not decode, yet the request
  \<open>[5, 1000]\<close> yields two records: the second frame is read at 9.99 and recorded under
  the timestamp 1000.
\<close>

theorem out_of_range_timestamp_counterexample:
  "clip_duration demo_clip = 10 \<and>
   clip_get_frame demo_clip (Finite 1000) = Inl (OSError ''failed to read the frame'') \<and>
   fst (capture_key_frames demo_video_env ''talk.mp4'' [Finite 5, Finite 1000] None {''talk.mp4''}) =
     Inr [(Finite 5, ''/tmp/frames/frame_0_5s.png''),
          (Finite 1000, ''/tmp/frames/frame_1_1000s.png'')]"
  by (simp add: capture_eval video_demo_eval Let_def)

text \<open>
  A timestamp that is not finite is clamped and captured like any other, and then \<open>int(ts)\<close>
  raises while the file name is built.
\<close>

lemma infinite_timestamp_raises:
  "fst (capture_key_frames demo_video_env ''talk.mp4'' [Finite 5, PosInf] None {''talk.mp4''}) =
     Inl (OverflowError ''cannot convert float infinity to integer'') \<and>
   fst (capture_key_frames demo_video_env ''talk.mp4'' [NaN] None {''talk.mp4''}) =
     Inl (ValueError ''cannot convert float NaN to integer'')"
  by (simp add: capture_eval video_demo_eval Let_def)

subsection \<open>Credentials and refinement\<close>

lemma get_client_cases:
  "get_client env =
     (if \<not> OpenAI_imported env
      then Inl (ImportError ''OpenAI package is required. Install with: pip install openai'')
      else if OPENAI_API_KEY env = None \<or> OPENAI_API_KEY env = Some []
      then Inl (ValueError (''OPENAI_API_KEY environment variable is not set. '' @
                            ''Please set it with your OpenAI API key.''))
      else Inr (the (OPENAI_API_KEY env)))"
  by (simp add: get_client_def split: option.split)

text \<open>
  Claim C5, as amended. When \<open>OPENAI_API_KEY\<close> is unset or empty, both
  \<open>summarize_transcription\<close> and \<open>refine_transcription\<close> raise before any request is
  sent (the world is unchanged): the missing-credential \<open>ValueError\<close> when the \<open>openai\<close>
  package was imported, and the \<open>ImportError\<close> of the missing package otherwise.
\<close>

theorem missing_key_fails_before_any_request:
  "OPENAI_API_KEY env = None \<or> OPENAI_API_KEY env = Some [] \<Longrightarrow>
   summarize_transcription env transcription segments model w =
     (Inl (if OpenAI_imported env
           then ValueError (''OPENAI_API_KEY environment variable is not set. '' @
                            ''Please set it with your OpenAI API key.'')
           else ImportError ''OpenAI package is required. Install with: pip install openai''), w) \<and>
   refine_transcription env raw_transcription model w =
     (Inl (if OpenAI_imported env
           then ValueError (''OPENAI_API_KEY environment variable is not set. '' @
                            ''Please set it with your OpenAI API key.'')
           else ImportError ''OpenAI package is required. Install with: pip install openai''), w)"
  by (auto simp: summarize_transcription_def refine_transcription_def get_client_cases)

theorem missing_key_fails_before_any_request_witness:
  "OPENAI_API_KEY no_key_env = None \<and>
   summarize_transcription no_key_env ''hello'' [] ''gpt-4o-mini'' world0 =
     (Inl (ValueError ''OPENAI_API_KEY environment variable is not set. Please set it with your OpenAI API key.''),
      world0) \<and>
   network_calls (snd (refine_transcription no_key_env ''hello'' ''gpt-4o-mini'' world0)) = []"
proof -
  have a: "OPENAI_API_KEY no_key_env = None" by (simp add: no_key_env_def)
  then have b: "OPENAI_API_KEY no_key_env = None \<or> OPENAI_API_KEY no_key_env = Some []" by simp
  have c: "OpenAI_imported no_key_env" by (simp add: no_key_env_def)
  from missing_key_fails_before_any_request [OF b, of "''hello''" "[]" "''gpt-4o-mini''" world0 "''hello''"] c
  have "summarize_transcription no_key_env ''hello'' [] ''gpt-4o-mini'' world0 =
     (Inl (ValueError ''OPENAI_API_KEY environment variable is not set. Please set it with your OpenAI API key.''),
      world0)"
    and "network_calls (snd (refine_transcription no_key_env ''hello'' ''gpt-4o-mini'' world0)) = []"
    by (simp_all add: world0_def)
  with a show ?thesis by blast
qed

text \<open>
  Without the \<open>openai\<close> package the error of an unset key is the \<open>ImportError\<close>, not
  the missing-credential error.
\<close>

theorem missing_package_counterexample:
  "OPENAI_API_KEY no_openai_env = None \<and>
   summarize_transcription no_openai_env ''hello'' [] ''gpt-4o-mini'' world0 =
     (Inl (ImportError ''OpenAI package is required. Install with: pip install openai''), world0) \<and>
   refine_transcription no_openai_env ''hello'' ''gpt-4o-mini'' world0 =
     (Inl (ImportError ''OpenAI package is required. Install with: pip install openai''), world0)"
  by (simp add: summarize_transcription_def refine_transcription_def get_client_def
      no_openai_env_def no_key_env_def)

text \<open>
  Claim C1, as amended. Once the client has been built, \<open>refine_transcription\<close> never
  raises, and any failure of the model call or of reading its response makes it return the
  raw transcription unchanged. A failure to build the client (missing package, missing or
  empty key) is raised to the caller, with no request sent.
\<close>

theorem refine_falls_back_once_client_exists:
  "(get_client env = Inr client \<longrightarrow>
      (\<exists>refined w'. refine_transcription env raw_transcription model w = (Inr refined, w')) \<and>
      (\<forall>e. refine_try env client (refine_request raw_transcription model) = Inl e \<longrightarrow>
           fst (refine_transcription env raw_transcription model w) = Inr raw_transcription)) \<and>
   (\<forall>e. get_client env = Inl e \<longrightarrow>
        refine_transcription env raw_transcription model w = (Inl e, w))"
  by (auto simp: refine_transcription_def Let_def split: sum.split)

theorem refine_falls_back_once_client_exists_witness:
  "get_client failing_api_env = Inr ''sk-test'' \<and>
   refine_try failing_api_env ''sk-test'' (refine_request ''um hello'' ''gpt-4o-mini'') =
     Inl (APIError ''Connection error.'') \<and>
   fst (refine_transcription failing_api_env ''um hello'' ''gpt-4o-mini'' world0) = Inr ''um hello'' \<and>
   get_client no_key_env =
     Inl (ValueError ''OPENAI_API_KEY environment variable is not set. Please set it with your OpenAI API key.'') \<and>
   refine_transcription no_key_env ''um hello'' ''gpt-4o-mini'' world0 =
     (Inl (ValueError ''OPENAI_API_KEY environment variable is not set. Please set it with your OpenAI API key.''),
      world0)"
proof -
  have a: "get_client failing_api_env = Inr ''sk-test''"
    by (simp add: get_client_def failing_api_env_def no_key_env_def)
  have b: "refine_try failing_api_env ''sk-test'' (refine_request ''um hello'' ''gpt-4o-mini'') =
     Inl (APIError ''Connection error.'')"
    by (simp add: refine_try_def bind_result_def failing_api_env_def no_key_env_def)
  have c: "get_client no_key_env =
     Inl (ValueError ''OPENAI_API_KEY environment variable is not set. Please set it with your OpenAI API key.'')"
    by (simp add: get_client_def no_key_env_def)
  note main = refine_falls_back_once_client_exists
  from main [of failing_api_env "''sk-test''" "''um hello''" "''gpt-4o-mini''" world0] a b
  have 1: "fst (refine_transcription failing_api_env ''um hello'' ''gpt-4o-mini'' world0) = Inr ''um hello''"
    by blast
  from main [of no_key_env _ "''um hello''" "''gpt-4o-mini''" world0] c
  have 2: "refine_transcription no_key_env ''um hello'' ''gpt-4o-mini'' world0 =
     (Inl (ValueError ''OPENAI_API_KEY environment variable is not set. Please set it with your OpenAI API key.''),
      world0)"
    by blast
  from a b c 1 2 show ?thesis by blast
qed

text \<open>
  With the key unset, \<open>refine_transcription\<close> raises instead of returning its input.
\<close>

theorem refine_missing_key_counterexample:
  "OPENAI_API_KEY no_key_env = None \<and>
   fst (refine_transcription no_key_env ''um hello'' ''gpt-4o-mini'' world0) =
     Inl (ValueError ''OPENAI_API_KEY environment variable is not set. Please set it with your OpenAI API key.'')"
  by (simp add: refine_transcription_def get_client_def no_key_env_def)

subsection \<open>Recovery from a response that is not JSON\<close>

lemma py_split_from_nonempty: "py_split_from sep cur s \<noteq> []"
  by (induction sep cur s rule: py_split_from.induct) auto

lemma remove_code_block_total: "\<exists>content'. remove_code_block content = Inr content'"
proof (cases "startswith content code_fence")
  case False
  then show ?thesis by (simp add: remove_code_block_def)
next
  case True
  then obtain c cs where content: "content = c # cs"
    by (cases content) (auto simp: startswith_def code_fence_def)
  obtain x rest where tail: "py_split_from code_fence [] (drop (length code_fence) (c # cs)) = x # rest"
    using py_split_from_nonempty [of code_fence "[]" "drop (length code_fence) (c # cs)"]
    by (cases "py_split_from code_fence [] (drop (length code_fence) (c # cs))") auto
  have "code_fence \<noteq> []" by (simp add: code_fence_def)
  with True content tail have "py_split code_fence content = [] # x # rest"
    by (simp add: py_split_def)
  with True show ?thesis by (simp add: remove_code_block_def)
qed

lemma py_str_JSONDecodeError_nonempty: "py_str (JSONDecodeError msg doc pos) \<noteq> []"
  by (simp add: Let_def)

text \<open>
  Claim C2. When the model has answered with a text content, removing a code block from it
  always succeeds, and if \<open>json.loads\<close> then raises \<open>JSONDecodeError\<close>,
  \<open>summarize_transcription\<close> raises nothing and returns the degraded result: its keyword
  list and its list of key points (the name under which the degraded result carries the
  insights; it has no \<open>key_insights\<close> entry) are empty, and \<open>_parse_error\<close> is a
  non-empty string.
\<close>

theorem summarize_recovers_parse_failure:
  "get_client env = Inr client \<Longrightarrow>
   chat_completions_create env client (summarize_request transcription segments model) = Inr response \<Longrightarrow>
   message_content response = Inr content \<Longrightarrow>
   \<exists>content'. remove_code_block content = Inr content' \<and>
     (json_loads env content' = Inl (JSONDecodeError msg doc pos) \<longrightarrow>
        (\<exists>result w'.
           summarize_transcription env transcription segments model w = (Inr result, w') \<and>
           result = parse_failure_result (JSONDecodeError msg doc pos) \<and>
           map_of result ''keywords'' = Some (PyList []) \<and>
           map_of result ''key_points'' = Some (PyList []) \<and>
           map_of result ''key_insights'' = None \<and>
           (\<exists>text. map_of result ''_parse_error'' = Some (PyStr text) \<and> text \<noteq> [])))"
proof -
  assume client: "get_client env = Inr client"
    and response: "chat_completions_create env client
                     (summarize_request transcription segments model) = Inr response"
    and content: "message_content response = Inr content"
  obtain content' where stripped: "remove_code_block content = Inr content'"
    using remove_code_block_total by blast
  have "\<exists>result w'.
           summarize_transcription env transcription segments model w = (Inr result, w') \<and>
           result = parse_failure_result (JSONDecodeError msg doc pos) \<and>
           map_of result ''keywords'' = Some (PyList []) \<and>
           map_of result ''key_points'' = Some (PyList []) \<and>
           map_of result ''key_insights'' = None \<and>
           (\<exists>text. map_of result ''_parse_error'' = Some (PyStr text) \<and> text \<noteq> [])"
    if parse: "json_loads env content' = Inl (JSONDecodeError msg doc pos)"
  proof -
    have body: "summarize_try env client (summarize_request transcription segments model) =
        Inl (JSONDecodeError msg doc pos)"
      using response content stripped parse by (simp add: summarize_try_def bind_result_def)
    have run: "fst (summarize_transcription env transcription segments model w) =
        Inr (parse_failure_result (JSONDecodeError msg doc pos))"
      using client body by (simp add: summarize_transcription_def Let_def)
    have err: "py_str (JSONDecodeError msg doc pos) \<noteq> []"
      by (rule py_str_JSONDecodeError_nonempty)
    have fields: "map_of (parse_failure_result (JSONDecodeError msg doc pos)) ''keywords'' = Some (PyList [])"
      "map_of (parse_failure_result (JSONDecodeError msg doc pos)) ''key_points'' = Some (PyList [])"
      "map_of (parse_failure_result (JSONDecodeError msg doc pos)) ''key_insights'' = None"
      "map_of (parse_failure_result (JSONDecodeError msg doc pos)) ''_parse_error'' =
         Some (PyStr (py_str (JSONDecodeError msg doc pos)))"
      unfolding parse_failure_result_def by simp_all
    from run fields err show ?thesis
      by (metis prod.collapse)
  qed
  with stripped show ?thesis by blast
qed

theorem summarize_recovers_parse_failure_witness:
  "get_client plain_text_env = Inr ''sk-test'' \<and>
   chat_completions_create plain_text_env ''sk-test'' (summarize_request ''hello'' [] ''gpt-4o-mini'') =
     Inr [Some ''Sorry, I cannot analyse this video.''] \<and>
   message_content [Some ''Sorry, I cannot analyse this video.''] =
     Inr ''Sorry, I cannot analyse this video.'' \<and>
   remove_code_block ''Sorry, I cannot analyse this video.'' =
     Inr ''Sorry, I cannot analyse this video.'' \<and>
   json_loads plain_text_env ''Sorry, I cannot analyse this video.'' =
     Inl (JSONDecodeError ''Expecting value'' ''Sorry, I cannot analyse this video.'' 0) \<and>
   (\<exists>result w'.
      summarize_transcription plain_text_env ''hello'' [] ''gpt-4o-mini'' world0 = (Inr result, w') \<and>
      map_of result ''keywords'' = Some (PyList []) \<and>
      map_of result ''key_points'' = Some (PyList []) \<and>
      map_of result ''_parse_error'' = Some (PyStr ''Expecting value: line 1 column 1 (char 0)''))"
proof -
  let ?text = "''Sorry, I cannot analyse this video.''"
  have a: "get_client plain_text_env = Inr ''sk-test''"
    by (simp add: get_client_def plain_text_env_def no_key_env_def)
  have b: "chat_completions_create plain_text_env ''sk-test''
             (summarize_request ''hello'' [] ''gpt-4o-mini'') = Inr [Some ?text]"
    by (simp add: plain_text_env_def no_key_env_def)
  have c: "message_content [Some ?text] = Inr ?text"
    by (simp add: message_content_def str_strip_def is_space_def)
  have d: "remove_code_block ?text = Inr ?text"
    by (simp add: remove_code_block_def startswith_def code_fence_def)
  have e: "json_loads plain_text_env ?text = Inl (JSONDecodeError ''Expecting value'' ?text 0)"
    by (simp add: plain_text_env_def no_key_env_def demo_json_loads_def keywords_null_document_def)
  have f: "py_str (JSONDecodeError ''Expecting value'' ?text 0) =
      ''Expecting value: line 1 column 1 (char 0)''"
    by (simp add: str_count_def str_int_def str_nat.simps digit_char_def)
  from summarize_recovers_parse_failure [OF a b c, of "''Expecting value''" ?text 0 world0] d e
  obtain result w' where
    "summarize_transcription plain_text_env ''hello'' [] ''gpt-4o-mini'' world0 = (Inr result, w')"
    "result = parse_failure_result (JSONDecodeError ''Expecting value'' ?text 0)"
    "map_of result ''keywords'' = Some (PyList [])"
    "map_of result ''key_points'' = Some (PyList [])"
    by auto
  moreover from this f
  have "map_of result ''_parse_error'' = Some (PyStr ''Expecting value: line 1 column 1 (char 0)'')"
    by (simp add: parse_failure_result_def)
  ultimately show ?thesis using a b c d e by blast
qed

subsection \<open>Defaults for missing keys\<close>

lemma map_of_setdefault:
  "map_of (setdefault d k v) k' =
     (if k' = k \<and> map_of d k = None then Some v else map_of d k')"
  by (auto simp: setdefault_def dict_contains_def map_add_def split: option.split)

lemma map_of_setdefault_same:
  "map_of (setdefault d k v) k = Some (case map_of d k of None \<Rightarrow> v | Some x \<Rightarrow> x)"
  by (simp add: map_of_setdefault split: option.split)

lemma map_of_setdefault_other:
  "k' \<noteq> k \<Longrightarrow> map_of (setdefault d k v) k' = map_of d k'"
  by (simp add: map_of_setdefault)

lemma map_of_update_all:
  "map_of (map (\<lambda>(k', v'). if k' = k then (k', v) else (k', v')) d) k'' =
     (if k'' = k then (if map_of d k = None then None else Some v) else map_of d k'')"
  by (induction d) auto

lemma map_of_dict_setitem:
  "map_of (dict_setitem d k v) k' = (if k' = k then Some v else map_of d k')"
  by (auto simp: dict_setitem_def dict_contains_def map_of_update_all map_add_def
      split: option.split)

lemma add_summary_other:
  "add_summary d = Inr d' \<Longrightarrow> k \<noteq> ''summary'' \<Longrightarrow> map_of d' k = map_of d k"
  by (auto simp: add_summary_def bind_result_def map_of_dict_setitem
      split: if_splits sum.splits)

lemma add_key_points_other:
  "add_key_points d = Inr d' \<Longrightarrow> k \<noteq> ''key_points'' \<Longrightarrow> map_of d' k = map_of d k"
  by (auto simp: add_key_points_def bind_result_def map_of_dict_setitem
      split: if_splits sum.splits)

lemma ensure_expected_keys_each:
  "map_of (ensure_expected_keys d) ''main_purpose'' =
     Some (case map_of d ''main_purpose'' of None \<Rightarrow> PyStr [] | Some v \<Rightarrow> v)"
  "map_of (ensure_expected_keys d) ''key_insights'' =
     Some (case map_of d ''key_insights'' of None \<Rightarrow> PyList [] | Some v \<Rightarrow> v)"
  "map_of (ensure_expected_keys d) ''important_concepts'' =
     Some (case map_of d ''important_concepts'' of None \<Rightarrow> PyList [] | Some v \<Rightarrow> v)"
  "map_of (ensure_expected_keys d) ''structured_summary'' =
     Some (case map_of d ''structured_summary'' of None \<Rightarrow> PyStr [] | Some v \<Rightarrow> v)"
  "map_of (ensure_expected_keys d) ''keywords'' =
     Some (case map_of d ''keywords'' of None \<Rightarrow> PyList [] | Some v \<Rightarrow> v)"
  "map_of (ensure_expected_keys d) ''timestamped_highlights'' =
     Some (case map_of d ''timestamped_highlights'' of None \<Rightarrow> PyList [] | Some v \<Rightarrow> v)"
  unfolding ensure_expected_keys_def Let_def
  by (simp_all add: map_of_setdefault_same map_of_setdefault_other)

lemma ensure_expected_keys_lookup:
  assumes "(k, dflt) \<in> set [(''main_purpose'', PyStr []), (''key_insights'', PyList []),
                      (''important_concepts'', PyList []), (''structured_summary'', PyStr []),
                      (''keywords'', PyList []), (''timestamped_highlights'', PyList [])]"
  shows "map_of (ensure_expected_keys d) k = Some (case map_of d k of None \<Rightarrow> dflt | Some v \<Rightarrow> v)"
proof -
  from assms have
    "(k = ''main_purpose'' \<and> dflt = PyStr []) \<or>
     (k = ''key_insights'' \<and> dflt = PyList []) \<or>
     (k = ''important_concepts'' \<and> dflt = PyList []) \<or>
     (k = ''structured_summary'' \<and> dflt = PyStr []) \<or>
     (k = ''keywords'' \<and> dflt = PyList []) \<or>
     (k = ''timestamped_highlights'' \<and> dflt = PyList [])"
    by simp
  then show ?thesis
    by (elim disjE conjE) (simp_all only: ensure_expected_keys_each)
qed

lemma complete_result_lookup:
  assumes "complete_result (PyDict d) = Inr result"
    and "(k, dflt) \<in> set [(''main_purpose'', PyStr []), (''key_insights'', PyList []),
                      (''important_concepts'', PyList []), (''structured_summary'', PyStr []),
                      (''keywords'', PyList []), (''timestamped_highlights'', PyList [])]"
  shows "map_of result k = Some (case map_of d k of None \<Rightarrow> dflt | Some v \<Rightarrow> v)"
proof -
  from assms(1) obtain d1 where s: "add_summary (ensure_expected_keys d) = Inr d1"
    and p: "add_key_points d1 = Inr result"
    by (auto simp: complete_result_def bind_result_def split: sum.splits)
  from assms(2) have ne: "k \<noteq> ''summary''" "k \<noteq> ''key_points''" by auto
  from add_key_points_other [OF p ne(2)] add_summary_other [OF s ne(1)]
  have "map_of result k = map_of (ensure_expected_keys d) k" by simp
  with ensure_expected_keys_lookup [OF assms(2)] show ?thesis by simp
qed

lemma str_add_error: "str_add a b = Inl e \<Longrightarrow> \<not> is_JSONDecodeError e"
  by (cases a; cases b) (auto simp: str_add_def)

lemma dict_getitem_error: "dict_getitem d k = Inl e \<Longrightarrow> \<not> is_JSONDecodeError e"
  by (auto simp: dict_getitem_def split: option.splits)

lemma bind_result_error:
  assumes "bind_result r f = Inl e"
    and "r = Inl e \<Longrightarrow> P"
    and "\<And>v. r = Inr v \<Longrightarrow> f v = Inl e \<Longrightarrow> P"
  shows P
  using assms by (cases r) (auto simp: bind_result_def)

lemma add_summary_error:
  assumes "add_summary d = Inl e"
  shows "\<not> is_JSONDecodeError e"
proof (cases "dict_contains d ''summary''")
  case True
  with assms show ?thesis by (simp add: add_summary_def)
next
  case False
  with assms have "bind_result (dict_getitem d ''main_purpose'') (\<lambda>mp.
           bind_result (str_add mp (PyStr [CHR 0x0A, CHR 0x0A])) (\<lambda>head.
           bind_result (dict_getitem d ''structured_summary'') (\<lambda>ss.
           bind_result (str_add head ss) (\<lambda>v.
           Inr (dict_setitem d ''summary'' v))))) = Inl e"
    by (simp add: add_summary_def)
  then show ?thesis
  proof (rule bind_result_error)
    assume "dict_getitem d ''main_purpose'' = Inl e"
    then show ?thesis by (rule dict_getitem_error)
  next
    fix mp
    assume "bind_result (str_add mp (PyStr [CHR 0x0A, CHR 0x0A])) (\<lambda>head.
           bind_result (dict_getitem d ''structured_summary'') (\<lambda>ss.
           bind_result (str_add head ss) (\<lambda>v.
           Inr (dict_setitem d ''summary'' v)))) = Inl e"
    then show ?thesis
    proof (rule bind_result_error)
      assume "str_add mp (PyStr [CHR 0x0A, CHR 0x0A]) = Inl e"
      then show ?thesis by (rule str_add_error)
    next
      fix head
      assume "bind_result (dict_getitem d ''structured_summary'') (\<lambda>ss.
           bind_result (str_add head ss) (\<lambda>v.
           Inr (dict_setitem d ''summary'' v))) = Inl e"
      then show ?thesis
      proof (rule bind_result_error)
        assume "dict_getitem d ''structured_summary'' = Inl e"
        then show ?thesis by (rule dict_getitem_error)
      next
        fix ss
        assume "bind_result (str_add head ss) (\<lambda>v. Inr (dict_setitem d ''summary'' v)) = Inl e"
        then show ?thesis
          by (rule bind_result_error) (auto dest: str_add_error)
      qed
    qed
  qed
qed

lemma add_key_points_error:
  assumes "add_key_points d = Inl e"
  shows "\<not> is_JSONDecodeError e"
proof (cases "dict_contains d ''key_points''")
  case True
  with assms show ?thesis by (simp add: add_key_points_def)
next
  case False
  with assms have "bind_result (dict_getitem d ''key_insights'') (\<lambda>v.
           Inr (dict_setitem d ''key_points'' v)) = Inl e"
    by (simp add: add_key_points_def)
  then show ?thesis
    by (rule bind_result_error) (auto dest: dict_getitem_error)
qed

lemma complete_result_error:
  assumes "complete_result r = Inl e"
  shows "\<not> is_JSONDecodeError e"
proof (cases r)
  case (PyDict d)
  with assms have "bind_result (add_summary (ensure_expected_keys d)) add_key_points = Inl e"
    by (simp add: complete_result_def)
  then show ?thesis
    by (rule bind_result_error) (auto dest: add_summary_error add_key_points_error)
qed (use assms in \<open>auto simp: complete_result_def\<close>)

text \<open>
  Claim C4, as amended. When the content of the response decodes to a JSON object and
  \<open>summarize_transcription\<close> returns a result, each of the six expected keys is bound in
  the result: to the value the decoded object gives it, whatever that value is, and to the
  empty string or the empty list when the object lacks the key.
\<close>

theorem summarize_defaults_missing_keys:
  "get_client env = Inr client \<Longrightarrow>
   chat_completions_create env client (summarize_request transcription segments model) = Inr response \<Longrightarrow>
   message_content response = Inr content \<Longrightarrow>
   remove_code_block content = Inr content' \<Longrightarrow>
   json_loads env content' = Inr (PyDict d) \<Longrightarrow>
   summarize_transcription env transcription segments model w = (Inr result, w') \<Longrightarrow>
   \<forall>(k, dflt) \<in> set [(''main_purpose'', PyStr []), (''key_insights'', PyList []),
                       (''important_concepts'', PyList []), (''structured_summary'', PyStr []),
                       (''keywords'', PyList []), (''timestamped_highlights'', PyList [])].
     map_of result k = Some (case map_of d k of None \<Rightarrow> dflt | Some v \<Rightarrow> v)"
proof -
  assume client: "get_client env = Inr client"
    and response: "chat_completions_create env client
                     (summarize_request transcription segments model) = Inr response"
    and content: "message_content response = Inr content"
    and stripped: "remove_code_block content = Inr content'"
    and parsed: "json_loads env content' = Inr (PyDict d)"
    and returned: "summarize_transcription env transcription segments model w = (Inr result, w')"
  have body: "summarize_try env client (summarize_request transcription segments model) =
      complete_result (PyDict d)"
    using response content stripped parsed by (simp add: summarize_try_def bind_result_def)
  have "complete_result (PyDict d) = Inr result"
  proof (cases "complete_result (PyDict d)")
    case (Inr r)
    with client body returned show ?thesis
      by (simp add: summarize_transcription_def Let_def)
  next
    case (Inl e)
    have "\<not> is_JSONDecodeError e"
      using Inl by (rule complete_result_error)
    with client body returned Inl show ?thesis
      by (simp add: summarize_transcription_def Let_def)
  qed
  then show ?thesis
    using complete_result_lookup by blast
qed

lemma keywords_null_run:
  "summarize_transcription keywords_null_env ''hello'' [] ''gpt-4o-mini'' world0 =
     (Inr [(''keywords'', PyNone), (''main_purpose'', PyStr []), (''key_insights'', PyList []),
           (''important_concepts'', PyList []), (''structured_summary'', PyStr []),
           (''timestamped_highlights'', PyList []), (''summary'', PyStr [CHR 0x0A, CHR 0x0A]),
           (''key_points'', PyList [])],
      world0\<lparr>network_calls :=
                network_calls world0 @ [summarize_request ''hello'' [] ''gpt-4o-mini'']\<rparr>)"
proof -
  have client: "get_client keywords_null_env = Inr ''sk-test''"
    by (simp add: get_client_def keywords_null_env_def no_key_env_def)
  have content: "message_content [Some keywords_null_document] = Inr keywords_null_document"
    by (simp add: message_content_def keywords_null_document_def str_strip_def is_space_def)
  have plain: "remove_code_block keywords_null_document = Inr keywords_null_document"
    by (simp add: remove_code_block_def keywords_null_document_def startswith_def code_fence_def)
  have keys: "ensure_expected_keys [(''keywords'', PyNone)] =
      [(''keywords'', PyNone), (''main_purpose'', PyStr []), (''key_insights'', PyList []),
       (''important_concepts'', PyList []), (''structured_summary'', PyStr []),
       (''timestamped_highlights'', PyList [])]"
    unfolding ensure_expected_keys_def Let_def
    by (simp add: setdefault_def dict_contains_def)
  have complete: "complete_result (PyDict [(''keywords'', PyNone)]) =
      Inr [(''keywords'', PyNone), (''main_purpose'', PyStr []), (''key_insights'', PyList []),
           (''important_concepts'', PyList []), (''structured_summary'', PyStr []),
           (''timestamped_highlights'', PyList []), (''summary'', PyStr [CHR 0x0A, CHR 0x0A]),
           (''key_points'', PyList [])]"
    by (simp add: complete_result_def keys add_summary_def add_key_points_def bind_result_def
        dict_contains_def dict_getitem_def dict_setitem_def str_add_def)
  have body: "summarize_try keywords_null_env ''sk-test''
      (summarize_request ''hello'' [] ''gpt-4o-mini'') =
        complete_result (PyDict [(''keywords'', PyNone)])"
    using content plain
    by (simp add: summarize_try_def bind_result_def keywords_null_env_def no_key_env_def
        demo_json_loads_def)
  show ?thesis
    using client body complete by (simp add: summarize_transcription_def Let_def)
qed

theorem summarize_defaults_missing_keys_witness:
  "get_client keywords_null_env = Inr ''sk-test'' \<and>
   chat_completions_create keywords_null_env ''sk-test''
     (summarize_request ''hello'' [] ''gpt-4o-mini'') = Inr [Some keywords_null_document] \<and>
   message_content [Some keywords_null_document] = Inr keywords_null_document \<and>
   remove_code_block keywords_null_document = Inr keywords_null_document \<and>
   json_loads keywords_null_env keywords_null_document = Inr (PyDict [(''keywords'', PyNone)]) \<and>
   (\<exists>result w'.
      summarize_transcription keywords_null_env ''hello'' [] ''gpt-4o-mini'' world0 = (Inr result, w') \<and>
      map_of result ''main_purpose'' = Some (PyStr []) \<and>
      map_of result ''key_insights'' = Some (PyList []) \<and>
      map_of result ''keywords'' = Some PyNone)"
proof -
  have a: "get_client keywords_null_env = Inr ''sk-test''"
    by (simp add: get_client_def keywords_null_env_def no_key_env_def)
  have b: "chat_completions_create keywords_null_env ''sk-test''
     (summarize_request ''hello'' [] ''gpt-4o-mini'') = Inr [Some keywords_null_document]"
    by (simp add: keywords_null_env_def no_key_env_def)
  have c: "message_content [Some keywords_null_document] = Inr keywords_null_document"
    by (simp add: message_content_def keywords_null_document_def str_strip_def is_space_def)
  have d: "remove_code_block keywords_null_document = Inr keywords_null_document"
    by (simp add: remove_code_block_def keywords_null_document_def startswith_def code_fence_def)
  have e: "json_loads keywords_null_env keywords_null_document =
      Inr (PyDict [(''keywords'', PyNone)])"
    by (simp add: keywords_null_env_def no_key_env_def demo_json_loads_def)
  obtain result w' where run:
    "summarize_transcription keywords_null_env ''hello'' [] ''gpt-4o-mini'' world0 = (Inr result, w')"
    using keywords_null_run by blast
  note each = summarize_defaults_missing_keys [OF a b c d e run, THEN bspec]
  have "map_of result ''main_purpose'' = Some (PyStr [])"
    using each [of "(''main_purpose'', PyStr [])"] by simp
  moreover have "map_of result ''key_insights'' = Some (PyList [])"
    using each [of "(''key_insights'', PyList [])"] by simp
  moreover have "map_of result ''keywords'' = Some PyNone"
    using each [of "(''keywords'', PyList [])"] by simp
  ultimately show ?thesis using a b c d e run by blast
qed

text \<open>
  A decoded object that binds \<open>keywords\<close> to \<open>null\<close> keeps that binding in the result.
\<close>

theorem null_value_counterexample:
  "json_loads keywords_null_env keywords_null_document = Inr (PyDict [(''keywords'', PyNone)]) \<and>
   fst (summarize_transcription keywords_null_env ''hello'' [] ''gpt-4o-mini'' world0) =
     Inr [(''keywords'', PyNone), (''main_purpose'', PyStr []), (''key_insights'', PyList []),
          (''important_concepts'', PyList []), (''structured_summary'', PyStr []),
          (''timestamped_highlights'', PyList []), (''summary'', PyStr [CHR 0x0A, CHR 0x0A]),
          (''key_points'', PyList [])]"
proof
  show "json_loads keywords_null_env keywords_null_document = Inr (PyDict [(''keywords'', PyNone)])"
    by (simp add: keywords_null_env_def no_key_env_def demo_json_loads_def)
  show "fst (summarize_transcription keywords_null_env ''hello'' [] ''gpt-4o-mini'' world0) =
     Inr [(''keywords'', PyNone), (''main_purpose'', PyStr []), (''key_insights'', PyList []),
          (''important_concepts'', PyList []), (''structured_summary'', PyStr []),
          (''timestamped_highlights'', PyList []), (''summary'', PyStr [CHR 0x0A, CHR 0x0A]),
          (''key_points'', PyList [])]"
    by (simp add: keywords_null_run)
qed

end
